theory Spec2Isabelle
  imports Complex_Main "HOL-Library.AList"
begin

section \<open>JavaScript values\<close>

text \<open>
  The editor is written in JavaScript. A value of the language is modelled by
  \<open>jsval\<close>: the primitives, arrays and plain objects. A string is a list of 8-bit
  code units; an object is the list of its own properties in enumeration order (what
  it inherits from \<open>Object.prototype\<close> is written out where the program reads or
  assigns a property by a computed name, see the section on plain objects), and a
  number is a finite rational, \<open>NaN\<close> or an infinity.

  Two built-ins of the language that work on IEEE doubles are not given a definition
  here: \<open>Number(s)\<close>, which reads a string as a number, and \<open>String(n)\<close> on a finite
  number. Every function that calls one of them takes them as the parameter \<open>B\<close>, and
  every theorem below holds for all such built-ins.
\<close>

datatype jsnum = Fin rat | NaN | PosInf | NegInf

datatype jsval =
    Undefined
  | Null
  | Bool bool
  | Num jsnum
  | Str string
  | Arr "jsval list"
  | Obj "(string \<times> jsval) list"

record builtins =
  Number :: "string \<Rightarrow> jsnum"
  numToString :: "rat \<Rightarrow> string"

definition isFinite :: "jsnum \<Rightarrow> bool" where
  "isFinite n = (case n of Fin q \<Rightarrow> True | _ \<Rightarrow> False)"

text \<open>
  The type names that the sources write into a type-hint map or compare a hint with.
  A type-hint map is a plain object, so reading it at a name that \<open>Object.prototype\<close>
  defines yields what is inherited there, a function or the prototype itself:
  \<open>TInherited\<close> stands for such a value, which is truthy and equal to no type name.
\<close>

datatype ty = TString | TNumber | TBoolean | TNull | TObject | TArray | TInherited

subsection \<open>Strings\<close>

text \<open>
  \<open>String.prototype.trim\<close> removes white space and line terminators from both ends.
  Among the code units below 256 these are tab, line feed, vertical tab, form feed,
  carriage return, space and the no-break space.
\<close>

definition is_ws :: "char \<Rightarrow> bool" where
  "is_ws c = (c \<in> set [CHR 0x09, CHR 0x0A, CHR 0x0B, CHR 0x0C, CHR 0x0D, CHR 0x20, CHR 0xA0])"

definition trim :: "string \<Rightarrow> string" where
  "trim s = rev (dropWhile is_ws (rev (dropWhile is_ws s)))"

text \<open>
  \<open>/^word$/i.test(s)\<close> for a lower-case ASCII word: without the \<open>u\<close> flag a pattern
  letter matches exactly its two ASCII cases.
\<close>

definition lower_ascii :: "char \<Rightarrow> char" where
  "lower_ascii c =
     (let n = (of_char c :: nat) in if 65 \<le> n \<and> n \<le> 90 then char_of (n + 32) else c)"

definition test_ci :: "string \<Rightarrow> string \<Rightarrow> bool" where
  "test_ci word s = (map lower_ascii s = word)"

text \<open>The two quoted empty markers: two double quotes, or two single quotes.\<close>

definition dq_marker :: string where
  "dq_marker = [CHR 0x22, CHR 0x22]"

definition sq_marker :: string where
  "sq_marker = [CHR 0x27, CHR 0x27]"

section \<open>The type-hint cast engine (webview-src/main.jsx)\<close>

definition inferType :: "builtins \<Rightarrow> string \<Rightarrow> jsval \<times> ty" where
  "inferType B raw =
     (if raw = '''' then (Str '''', TString)
      else if test_ci ''true'' raw then (Bool True, TBoolean)
      else if test_ci ''false'' raw then (Bool False, TBoolean)
      else if test_ci ''null'' raw then (Null, TNull)
      else (case Number B raw of
              Fin q \<Rightarrow> (Num (Fin q), TNumber)
            | _ \<Rightarrow> (Str raw, TString)))"

definition castWithType :: "builtins \<Rightarrow> string \<Rightarrow> ty option \<Rightarrow> jsval \<times> ty" where
  "castWithType B raw hint =
     (let trimmed = trim raw in
      if trimmed = dq_marker \<or> trimmed = sq_marker then (Str '''', TString)
      else if trimmed = '''' then (Str '''', TString)
      else if hint = None \<or> hint = Some TString then inferType B trimmed
      else if hint = Some TNumber then
        (case Number B trimmed of
           Fin q \<Rightarrow> (Num (Fin q), TNumber)
         | _ \<Rightarrow> (Str trimmed, TString))
      else if hint = Some TBoolean then
        (if test_ci ''true'' trimmed then (Bool True, TBoolean)
         else if test_ci ''false'' trimmed then (Bool False, TBoolean)
         else (Bool (trimmed \<noteq> ''''), TBoolean))
      else if hint = Some TNull then (Null, TNull)
      else (Str trimmed, TString))"

text \<open>
  The rules of the cast engine as the specification words them, read on the text they are
  given: a quoted empty marker, the empty text, free-form inference without a hint or
  with the hint \<open>string\<close>, and the hints \<open>number\<close>, \<open>boolean\<close> and \<open>null\<close>. The
  specification names no other hint; for those the text is kept as a string.
\<close>

definition castRules :: "builtins \<Rightarrow> string \<Rightarrow> ty option \<Rightarrow> jsval \<times> ty" where
  "castRules B txt hint =
     (if txt = dq_marker \<or> txt = sq_marker then (Str '''', TString)
      else if txt = '''' then (Str '''', TString)
      else if hint = None \<or> hint = Some TString then
        (if test_ci ''true'' txt then (Bool True, TBoolean)
         else if test_ci ''false'' txt then (Bool False, TBoolean)
         else if test_ci ''null'' txt then (Null, TNull)
         else if isFinite (Number B txt) then (Num (Number B txt), TNumber)
         else (Str txt, TString))
      else if hint = Some TNumber then
        (if isFinite (Number B txt) then (Num (Number B txt), TNumber)
         else (Str txt, TString))
      else if hint = Some TBoolean then
        (if test_ci ''true'' txt then (Bool True, TBoolean)
         else if test_ci ''false'' txt then (Bool False, TBoolean)
         else (Bool True, TBoolean))
      else if hint = Some TNull then (Null, TNull)
      else (Str txt, TString))"

subsection \<open>Built-ins for the examples\<close>

text \<open>
  The examples below are evaluated with built-ins that cover decimal integers:
  \<open>Number\<close> reads an optional sign followed by decimal digits (and the empty string as
  zero), anything else is \<open>NaN\<close>; \<open>String\<close> prints an integer in decimal.
\<close>

definition digit_char :: "nat \<Rightarrow> char" where
  "digit_char d = char_of (48 + d)"

fun show_nat :: "nat \<Rightarrow> string" where
  "show_nat n = (if n < 10 then [digit_char n] else show_nat (n div 10) @ [digit_char (n mod 10)])"

declare show_nat.simps [simp del]

definition is_digit :: "char \<Rightarrow> bool" where
  "is_digit c = (48 \<le> (of_char c :: nat) \<and> (of_char c :: nat) \<le> 57)"

definition digits_value :: "string \<Rightarrow> nat" where
  "digits_value s = foldl (\<lambda>acc c. 10 * acc + ((of_char c :: nat) - 48)) 0 s"

definition intNumber :: "string \<Rightarrow> jsnum" where
  "intNumber s =
     (let t = trim s in
      if t = '''' then Fin 0
      else if list_all is_digit t then Fin (of_nat (digits_value t))
      else (case t of
              c # ds \<Rightarrow>
                if ds \<noteq> [] \<and> list_all is_digit ds \<and> c = CHR ''+'' then Fin (of_nat (digits_value ds))
                else if ds \<noteq> [] \<and> list_all is_digit ds \<and> c = CHR ''-'' then Fin (- of_nat (digits_value ds))
                else NaN
            | [] \<Rightarrow> NaN))"

definition intToString :: "rat \<Rightarrow> string" where
  "intToString q =
     (if q < 0 then CHR ''-'' # show_nat (nat (- \<lfloor>q\<rfloor>)) else show_nat (nat \<lfloor>q\<rfloor>))"

definition intBuiltins :: builtins where
  "intBuiltins = \<lparr> Number = intNumber, numToString = intToString \<rparr>"

section \<open>Plain objects\<close>

text \<open>
  The own properties of an object are enumerated (by \<open>Object.keys\<close>, by
  \<open>JSON.stringify\<close>, by a spread) with the array indices first, in ascending order, and
  the other keys after them in the order of their creation. An array index is the
  decimal text of an integer below \<open>2^32 - 1\<close>.
\<close>

definition isArrayIndex :: "string \<Rightarrow> bool" where
  "isArrayIndex k =
     (k \<noteq> '''' \<and> list_all is_digit k \<and> (k = ''0'' \<or> hd k \<noteq> CHR ''0'')
      \<and> digits_value k < 4294967295)"

fun insertProp :: "string \<Rightarrow> jsval \<Rightarrow> (string \<times> jsval) list \<Rightarrow> (string \<times> jsval) list" where
  "insertProp k v [] = [(k, v)]"
| "insertProp k v (kv # kvs) =
     (if isArrayIndex k \<and> (\<not> isArrayIndex (fst kv) \<or> digits_value k < digits_value (fst kv))
      then (k, v) # kv # kvs
      else kv # insertProp k v kvs)"

text \<open>
  Defining the own property \<open>k\<close>: the value of an existing property is replaced where it
  stands, a new property takes its place in the enumeration order.
\<close>

definition setProp :: "string \<Rightarrow> jsval \<Rightarrow> (string \<times> jsval) list \<Rightarrow> (string \<times> jsval) list" where
  "setProp k v kvs = (if k \<in> set (map fst kvs) then AList.update k v kvs else insertProp k v kvs)"

text \<open>
  The names that \<open>Object.prototype\<close> defines. Eleven of them hold a function; the
  twelfth, \<open>__proto__\<close>, is an accessor: reading it gives the prototype of the object,
  and assigning to it replaces the prototype when the value is an object or \<open>null\<close> and
  does nothing otherwise. In neither case does the assignment create a property.
\<close>

definition protoNames :: "string list" where
  "protoNames =
     [''constructor'', ''__defineGetter__'', ''__defineSetter__'', ''hasOwnProperty'',
      ''__lookupGetter__'', ''__lookupSetter__'', ''isPrototypeOf'', ''propertyIsEnumerable'',
      ''toString'', ''valueOf'', ''__proto__'', ''toLocaleString'']"

text \<open>
  An object that the program builds by assignments \<open>obj[key] = value\<close> starts as \<open>{}\<close>,
  with the prototype \<open>Object.prototype\<close>. Besides its own properties the model keeps
  whether an assignment to \<open>__proto__\<close> still reaches the accessor: it does until the
  prototype is replaced by \<open>null\<close>, or by an object for which it does not. The values
  assigned by \<open>assign\<close> are primitives; an object is assigned by \<open>assignObject\<close>.
\<close>

record jsobject =
  own :: "(string \<times> jsval) list"
  inheritsProto :: bool

definition emptyObject :: jsobject where
  "emptyObject = \<lparr> own = [], inheritsProto = True \<rparr>"

definition assign :: "string \<Rightarrow> jsval \<Rightarrow> jsobject \<Rightarrow> jsobject" where
  "assign key v obj =
     (if key = ''__proto__'' \<and> key \<notin> set (map fst (own obj)) \<and> inheritsProto obj
      then (if v = Null then obj \<lparr> inheritsProto := False \<rparr> else obj)
      else obj \<lparr> own := setProp key v (own obj) \<rparr>)"

definition assignObject :: "string \<Rightarrow> jsobject \<Rightarrow> jsobject \<Rightarrow> jsobject" where
  "assignObject key inner obj =
     (if key = ''__proto__'' \<and> key \<notin> set (map fst (own obj)) \<and> inheritsProto obj
      then obj \<lparr> inheritsProto := inheritsProto inner \<rparr>
      else obj \<lparr> own := setProp key (Obj (own inner)) (own obj) \<rparr>)"

section \<open>Shape rules (json-sheet-rules.js)\<close>

definition optionalArrayWrapperProperty :: string where
  "optionalArrayWrapperProperty = ''data''"

definition allowArrayOfPrimitives :: bool where
  "allowArrayOfPrimitives = True"

definition isPrimitive :: "jsval \<Rightarrow> bool" where
  "isPrimitive v =
     (case v of Null \<Rightarrow> True | Undefined \<Rightarrow> True | Str s \<Rightarrow> True | Num n \<Rightarrow> True
      | Bool b \<Rightarrow> True | _ \<Rightarrow> False)"

definition isPlainObject :: "jsval \<Rightarrow> bool" where
  "isPlainObject v = (case v of Obj kvs \<Rightarrow> True | _ \<Rightarrow> False)"

definition isArray :: "jsval \<Rightarrow> bool" where
  "isArray v = (case v of Arr xs \<Rightarrow> True | _ \<Rightarrow> False)"

definition isArrayOfPrimitives :: "jsval \<Rightarrow> bool" where
  "isArrayOfPrimitives v = (case v of Arr xs \<Rightarrow> list_all isPrimitive xs | _ \<Rightarrow> False)"

text \<open>Reading a property: \<open>obj[key]\<close> is \<open>undefined\<close> where the object has no such property.\<close>

definition getProp :: "jsval \<Rightarrow> string \<Rightarrow> jsval" where
  "getProp v key =
     (case v of
        Obj kvs \<Rightarrow> (case map_of kvs key of Some x \<Rightarrow> x | None \<Rightarrow> Undefined)
      | _ \<Rightarrow> Undefined)"

text \<open>
  The result of \<open>validateAndExtract\<close>: the four accepted kinds with the fields the source
  returns for each, or the rejection with its reason.
\<close>

datatype extracted =
    WrappedArray "jsval list" "(string \<times> jsval) list" string
  | ArrayKind "jsval list"
  | ObjectKV "(string \<times> jsval) list"
  | ObjectOfObjects "(string \<times> jsval) list"
  | Rejected string

definition reason_root_object :: string where
  "reason_root_object = ''Unsupported JSON root object. Use either (1) key/value pairs with primitive values, or (2) key/object pairs where the inner objects only contain primitive fields.''"

definition reason_not_array_or_object :: string where
  "reason_not_array_or_object = ''Unsupported JSON. Expected an array or an object.''"

definition validateAndExtract :: "jsval \<Rightarrow> extracted" where
  "validateAndExtract content =
     (case content of
        Obj kvs \<Rightarrow>
          (case getProp content optionalArrayWrapperProperty of
             Arr d \<Rightarrow>
               WrappedArray d
                 (filter (\<lambda>(k, v). k \<noteq> optionalArrayWrapperProperty) kvs)
                 optionalArrayWrapperProperty
           | _ \<Rightarrow>
               if list_all (\<lambda>v. isPrimitive v \<or> (allowArrayOfPrimitives \<and> isArrayOfPrimitives v))
                    (map snd kvs)
               then ObjectKV kvs
               else if list_all isPlainObject (map snd kvs) then ObjectOfObjects kvs
               else Rejected reason_root_object)
      | Arr xs \<Rightarrow> ArrayKind xs
      | _ \<Rightarrow> Rejected reason_not_array_or_object)"

subsection \<open>JSON.stringify without indentation\<close>

definition hex_digit :: "nat \<Rightarrow> char" where
  "hex_digit d = (if d < 10 then char_of (48 + d) else char_of (87 + d))"

definition json_escape :: "char \<Rightarrow> string" where
  "json_escape c =
     (if c = CHR 0x22 then [CHR 0x5C, CHR 0x22]
      else if c = CHR 0x5C then [CHR 0x5C, CHR 0x5C]
      else if c = CHR 0x08 then [CHR 0x5C, CHR ''b'']
      else if c = CHR 0x0C then [CHR 0x5C, CHR ''f'']
      else if c = CHR 0x0A then [CHR 0x5C, CHR ''n'']
      else if c = CHR 0x0D then [CHR 0x5C, CHR ''r'']
      else if c = CHR 0x09 then [CHR 0x5C, CHR ''t'']
      else if (of_char c :: nat) < 32 then
        [CHR 0x5C, CHR ''u'', CHR ''0'', CHR ''0'',
         hex_digit ((of_char c :: nat) div 16), hex_digit ((of_char c :: nat) mod 16)]
      else [c])"

definition json_quote :: "string \<Rightarrow> string" where
  "json_quote s = [CHR 0x22] @ concat (map json_escape s) @ [CHR 0x22]"

fun join :: "string \<Rightarrow> string list \<Rightarrow> string" where
  "join sep [] = []"
| "join sep [x] = x"
| "join sep (x # y # ys) = x @ sep @ join sep (y # ys)"

text \<open>
  \<open>stringify\<close> is applied to arrays and objects only; an \<open>undefined\<close> element of an array
  prints as \<open>null\<close>, an \<open>undefined\<close> property is left out, and a number that is not finite
  prints as \<open>null\<close>.
\<close>

fun stringify :: "builtins \<Rightarrow> jsval \<Rightarrow> string" where
  "stringify B Undefined = ''null''"
| "stringify B Null = ''null''"
| "stringify B (Bool b) = (if b then ''true'' else ''false'')"
| "stringify B (Num n) = (case n of Fin q \<Rightarrow> numToString B q | _ \<Rightarrow> ''null'')"
| "stringify B (Str s) = json_quote s"
| "stringify B (Arr xs) = ''['' @ join '','' (map (stringify B) xs) @ '']''"
| "stringify B (Obj kvs) =
     ''{'' @ join '','' (map (\<lambda>(k, v). json_quote k @ '':'' @ stringify B v)
                         (filter (\<lambda>(k, v). v \<noteq> Undefined) kvs)) @ ''}''"

subsection \<open>The flatteners\<close>

datatype flatres = FlatOk "(string \<times> jsval) list" | FlatErr "string list"

definition err_array :: "string \<Rightarrow> string" where
  "err_array key =
     ''Unsupported array value at '' @ [CHR 0x22] @ key @ [CHR 0x22]
       @ ''. Only arrays of primitive values are supported.''"

definition err_nested_row :: "string \<Rightarrow> string" where
  "err_nested_row key =
     ''Nested object at '' @ [CHR 0x22] @ key @ [CHR 0x22]
       @ '' is not supported in table rows. Flatten it first (e.g. use '' @ [CHR 0x22] @ key
       @ ''.field'' @ [CHR 0x22] @ '' columns) or change your JSON shape.''"

definition err_nested_inner :: "string \<Rightarrow> string" where
  "err_nested_inner fullKey =
     ''Nested object too deep at '' @ [CHR 0x22] @ fullKey @ [CHR 0x22]
       @ ''. Inner objects must be flat.''"

definition err_unsupported :: "string \<Rightarrow> string" where
  "err_unsupported key = ''Unsupported value type at '' @ [CHR 0x22] @ key @ [CHR 0x22] @ ''.''"

definition err_inner_not_object :: "string \<Rightarrow> string" where
  "err_inner_not_object parent =
     ''Value at '' @ [CHR 0x22] @ parent @ [CHR 0x22] @ '' must be an object.''"

text \<open>
  The body of the \<open>forEach\<close> over the keys of a row: the state is the object \<open>out\<close> built
  so far and the list \<open>errors\<close>.
\<close>

definition rowField ::
  "builtins \<Rightarrow> string \<times> jsval \<Rightarrow> jsobject \<times> string list \<Rightarrow> jsobject \<times> string list" where
  "rowField B kv st =
     (case (kv, st) of ((key, v), (out, errors)) \<Rightarrow>
        if isPrimitive v then (assign key v out, errors)
        else if isArray v then
          (if allowArrayOfPrimitives \<and> isArrayOfPrimitives v
           then (assign key (Str (stringify B v)) out, errors)
           else (out, errors @ [err_array key]))
        else if isPlainObject v then (out, errors @ [err_nested_row key])
        else (out, errors @ [err_unsupported key]))"

definition flattenRowObject :: "builtins \<Rightarrow> jsval \<Rightarrow> flatres" where
  "flattenRowObject B row =
     (case row of
        Obj kvs \<Rightarrow>
          (case fold (rowField B) kvs (emptyObject, []) of (out, errors) \<Rightarrow>
             if errors \<noteq> [] then FlatErr errors else FlatOk (own out))
      | _ \<Rightarrow> FlatErr [''Each row must be an object.''])"

definition innerField ::
  "builtins \<Rightarrow> string \<Rightarrow> string \<times> jsval \<Rightarrow> jsobject \<times> string list
     \<Rightarrow> jsobject \<times> string list" where
  "innerField B parentKeyForError kv st =
     (case (kv, st) of ((key, v), (out, errors)) \<Rightarrow>
        let fullKey = parentKeyForError @ ''.'' @ key in
        if isPrimitive v then (assign key v out, errors)
        else if isArray v then
          (if allowArrayOfPrimitives \<and> isArrayOfPrimitives v
           then (assign key (Str (stringify B v)) out, errors)
           else (out, errors @ [err_array fullKey]))
        else if isPlainObject v then (out, errors @ [err_nested_inner fullKey])
        else (out, errors @ [err_unsupported fullKey]))"

definition flattenInnerObject :: "builtins \<Rightarrow> jsval \<Rightarrow> string \<Rightarrow> flatres" where
  "flattenInnerObject B inner parentKeyForError =
     (case inner of
        Obj kvs \<Rightarrow>
          (case fold (innerField B parentKeyForError) kvs (emptyObject, []) of (out, errors) \<Rightarrow>
             if errors \<noteq> [] then FlatErr errors else FlatOk (own out))
      | _ \<Rightarrow> FlatErr [err_inner_not_object parentKeyForError])"

section \<open>Reading a CSV file (extension.js)\<close>

text \<open>\<open>text.split(/\r?\n/)\<close>: a line ends at a line feed or at a carriage return and line feed.\<close>

fun splitLines :: "string \<Rightarrow> string list" where
  "splitLines [] = [[]]"
| "splitLines [c] = (if c = CHR 0x0A then [[], []] else [[c]])"
| "splitLines (c # d # cs) =
     (if c = CHR 0x0A then [] # splitLines (d # cs)
      else if c = CHR 0x0D \<and> d = CHR 0x0A then [] # splitLines cs
      else (case splitLines (d # cs) of
              l # ls \<Rightarrow> (c # l) # ls
            | [] \<Rightarrow> [[c]]))"

text \<open>\<open>s.split(sep)\<close> for a separator of one character.\<close>

fun splitOn :: "char \<Rightarrow> string \<Rightarrow> string list" where
  "splitOn sep [] = [[]]"
| "splitOn sep (c # cs) =
     (if c = sep then [] # splitOn sep cs
      else (case splitOn sep cs of
              l # ls \<Rightarrow> (c # l) # ls
            | [] \<Rightarrow> [[c]]))"

definition csvMatrix :: "string \<Rightarrow> string list list" where
  "csvMatrix txt =
     (let lines = splitLines txt in
      map (\<lambda>line. map trim (splitOn CHR '','' line))
        (map snd
          (filter (\<lambda>(idx, line). \<not> (idx = length lines - 1 \<and> trim line = ''''))
             (enumerate 0 lines))))"

definition parseCsv :: "string \<Rightarrow> jsval" where
  "parseCsv txt =
     Obj [(''dataKind'', Str ''csv''),
          (''matrix'', Arr (map (\<lambda>row. Arr (map Str row)) (csvMatrix txt))),
          (''text'', Str txt)]"


subsection \<open>The per-field policy of the flatteners, for stating their properties\<close>

text \<open>
  A field is rejected when it holds a nested plain object or an array with an element
  that is not a primitive; a field that is kept holds the value itself when it is a
  primitive and the JSON text of the array otherwise.
\<close>

definition rejectedValue :: "jsval \<Rightarrow> bool" where
  "rejectedValue v = (isPlainObject v \<or> (isArray v \<and> \<not> isArrayOfPrimitives v))"

definition flatValue :: "builtins \<Rightarrow> jsval \<Rightarrow> jsval" where
  "flatValue B v = (if isPrimitive v then v else Str (stringify B v))"

definition rowError :: "string \<Rightarrow> jsval \<Rightarrow> string" where
  "rowError key v = (if isArray v then err_array key else err_nested_row key)"

definition innerError :: "string \<Rightarrow> string \<Rightarrow> jsval \<Rightarrow> string" where
  "innerError parent key v =
     (if isArray v then err_array (parent @ ''.'' @ key)
      else err_nested_inner (parent @ ''.'' @ key))"

text \<open>A message mentions a key path when it contains the path between double quotes.\<close>

definition mentions :: "string \<Rightarrow> string \<Rightarrow> bool" where
  "mentions msg path = (\<exists>pre post. msg = pre @ [CHR 0x22] @ path @ [CHR 0x22] @ post)"


section \<open>Serializing the grid (webview-src/main.jsx)\<close>

subsection \<open>Arrays with holes\<close>

text \<open>
  The grid is built by assigning \<open>matrix[r][c] = value\<close> into empty arrays, so an index
  that was never assigned is a hole: reading it gives \<open>undefined\<close>, and \<open>forEach\<close>,
  \<open>map\<close> and \<open>filter\<close> skip it. Such an array is a list of options, \<open>None\<close> for a
  hole; assigning past the end extends the array with holes.
\<close>

type_synonym 'a sparse = "'a option list"

type_synonym matrix = "jsval sparse sparse"

definition sparseGet :: "'a sparse \<Rightarrow> nat \<Rightarrow> 'a option" where
  "sparseGet xs i = (if i < length xs then xs ! i else None)"

definition sparseSet :: "nat \<Rightarrow> 'a \<Rightarrow> 'a sparse \<Rightarrow> 'a sparse" where
  "sparseSet i v xs =
     (if i < length xs then xs[i := Some v]
      else xs @ replicate (i - length xs) None @ [Some v])"

definition present :: "'a sparse \<Rightarrow> 'a list" where
  "present xs = List.map_filter (\<lambda>x. x) xs"

definition rowAt :: "matrix \<Rightarrow> nat \<Rightarrow> jsval sparse" where
  "rowAt m r = (case sparseGet m r of Some row \<Rightarrow> row | None \<Rightarrow> [])"

definition cellAt :: "jsval sparse \<Rightarrow> nat \<Rightarrow> jsval" where
  "cellAt row c = (case sparseGet row c of Some v \<Rightarrow> v | None \<Rightarrow> Undefined)"

subsection \<open>The sheet and its matrix\<close>

text \<open>
  Of a sheet the serializer reads its name, its \<open>data\<close> (rows of cells, when it is an
  array; a row that is a hole or \<open>null\<close> is \<open>None\<close>) and its \<open>celldata\<close> (entries with a
  row, a column and a value, when it is an array).
\<close>

record celldataEntry =
  entry_r :: nat
  entry_c :: nat
  entry_v :: jsval

record sheet =
  sheet_name :: jsval
  sheet_data :: "matrix option"
  sheet_celldata :: "celldataEntry list option"

definition emptySheet :: sheet where
  "emptySheet = \<lparr> sheet_name = Undefined, sheet_data = None, sheet_celldata = None \<rparr>"

definition applyValue :: "nat \<Rightarrow> nat \<Rightarrow> jsval \<Rightarrow> matrix \<Rightarrow> matrix" where
  "applyValue r c v m = sparseSet r (sparseSet c v (rowAt m r)) m"

definition coalesce :: "jsval \<Rightarrow> jsval \<Rightarrow> jsval" where
  "coalesce a b = (if a = Null \<or> a = Undefined then b else a)"

definition entryObject :: "celldataEntry \<Rightarrow> jsval" where
  "entryObject e =
     Obj [(''r'', Num (Fin (of_nat (entry_r e)))), (''c'', Num (Fin (of_nat (entry_c e)))),
          (''v'', entry_v e)]"

definition applyRow :: "nat \<Rightarrow> jsval sparse \<Rightarrow> matrix \<Rightarrow> matrix" where
  "applyRow r row m =
     fold (\<lambda>(c, cell) acc. case cell of Some v \<Rightarrow> applyValue r c v acc | None \<Rightarrow> acc)
       (enumerate 0 row) m"

definition celldataToMatrix :: "sheet \<Rightarrow> matrix" where
  "celldataToMatrix sh =
     (let m1 = (case sheet_data sh of
                  Some rows \<Rightarrow>
                    fold (\<lambda>(r, row) acc. case row of Some cells \<Rightarrow> applyRow r cells acc
                                                    | None \<Rightarrow> acc)
                      (enumerate 0 rows) []
                | None \<Rightarrow> [])
      in case sheet_celldata sh of
           Some entries \<Rightarrow>
             fold (\<lambda>e acc. applyValue (entry_r e) (entry_c e)
                               (coalesce (entry_v e) (entryObject e)) acc)
               entries m1
         | None \<Rightarrow> m1)"

subsection \<open>The text of a cell\<close>

definition truthy :: "jsval \<Rightarrow> bool" where
  "truthy v =
     (case v of
        Undefined \<Rightarrow> False
      | Null \<Rightarrow> False
      | Bool b \<Rightarrow> b
      | Num n \<Rightarrow> n \<noteq> Fin 0 \<and> n \<noteq> NaN
      | Str s \<Rightarrow> s \<noteq> ''''
      | Arr xs \<Rightarrow> True
      | Obj kvs \<Rightarrow> True)"

text \<open>\<open>String(v)\<close>: an array prints its elements joined by commas, an object a fixed text.\<close>

fun js_String :: "builtins \<Rightarrow> jsval \<Rightarrow> string" where
  "js_String B Undefined = ''undefined''"
| "js_String B Null = ''null''"
| "js_String B (Bool b) = (if b then ''true'' else ''false'')"
| "js_String B (Num n) =
     (case n of Fin q \<Rightarrow> numToString B q | NaN \<Rightarrow> ''NaN'' | PosInf \<Rightarrow> ''Infinity''
      | NegInf \<Rightarrow> ''-Infinity'')"
| "js_String B (Str s) = s"
| "js_String B (Arr xs) =
     join '','' (map (\<lambda>x. if x = Null \<or> x = Undefined then '''' else js_String B x) xs)"
| "js_String B (Obj kvs) = ''[object Object]''"

definition getCellText :: "builtins \<Rightarrow> jsval \<Rightarrow> string" where
  "getCellText B cell =
     (if \<not> truthy cell then ''''
      else case cell of
          Str s \<Rightarrow> js_String B cell
        | Num n \<Rightarrow> js_String B cell
        | Bool b \<Rightarrow> js_String B cell
        | Obj kvs \<Rightarrow>
            if getProp cell ''m'' \<noteq> Undefined
            then js_String B (coalesce (getProp cell ''m'') (Str ''''))
            else if getProp cell ''v'' \<noteq> Undefined
            then js_String B (coalesce (getProp cell ''v'') (Str ''''))
            else ''''
        | _ \<Rightarrow> '''')"

subsection \<open>Remembering a type hint\<close>

type_synonym typeMap = "string \<rightharpoonup> ty"

text \<open>
  A type-hint map is a plain object: \<open>typeMap\<close> holds its own properties, and the
  serializer works on the copy \<^verbatim>\<open>{ ...currentTypeMap }\<close>, whose prototype is
  \<open>Object.prototype\<close>. Reading \<open>nextTypeMap[path]\<close> finds the own property, and without
  one what the prototype defines at that name.
\<close>

definition readHint :: "typeMap \<Rightarrow> string \<Rightarrow> ty option" where
  "readHint tm path =
     (case tm path of
        Some h \<Rightarrow> Some h
      | None \<Rightarrow> if path \<in> set protoNames then Some TInherited else None)"

text \<open>
  Every branch of the serializer casts a cell with the two statements
  \<^verbatim>\<open>const { casted, type } = castWithType(raw, nextTypeMap[path]);\<close> and
  \<^verbatim>\<open>nextTypeMap[path] = nextTypeMap[path] || type;\<close>. Neither a type name nor an
  inherited value is falsy, so what was read is written back where something was read.
  At \<open>__proto__\<close> without an own property the assignment hands the prototype to the
  accessor and the map stays as it is.
\<close>

definition castAt :: "builtins \<Rightarrow> typeMap \<Rightarrow> string \<Rightarrow> string \<Rightarrow> jsval \<times> typeMap" where
  "castAt B tm path raw =
     (case castWithType B raw (readHint tm path) of
        (casted, t) \<Rightarrow>
          (casted,
           if path = ''__proto__'' \<and> tm path = None then tm
           else tm(path \<mapsto> (case readHint tm path of Some h \<Rightarrow> h | None \<Rightarrow> t))))"

definition rowPath :: "nat \<Rightarrow> string" where
  "rowPath i = ''['' @ show_nat i @ '']''"

definition cellPath :: "nat \<Rightarrow> string \<Rightarrow> string" where
  "cellPath i header = rowPath i @ ''.'' @ header"

definition csvPath :: "nat \<Rightarrow> nat \<Rightarrow> string" where
  "csvPath r c = show_nat r @ '','' @ show_nat c"

subsection \<open>The shapes\<close>

datatype dataKind =
  KArray | KWrappedArray | KObjectOfObjects | KCsv | KXlsx | KObject | KUnsupported

record wrapper =
  meta :: "(string \<times> jsval) list"
  dataProp :: string

text \<open>
  The serializer returns the text \<open>JSON.stringify(v, null, 2)\<close> for the JSON shapes;
  \<open>OutJson v\<close> stands for it (the pretty printer is a built-in). For a CSV file and for
  a workbook it returns the text under \<open>OutText\<close>.
\<close>

datatype out = OutJson jsval | OutText string

record serialized =
  textOut :: out
  nextTypeMap :: typeMap
  matrixOut :: matrix

text \<open>The header row of the array shapes: the texts of the first row that are not empty.\<close>

definition tableHeaders :: "builtins \<Rightarrow> matrix \<Rightarrow> string list" where
  "tableHeaders B m =
     filter (\<lambda>t. t \<noteq> '''') (map (getCellText B) (present (rowAt m 0)))"

subsubsection \<open>array\<close>

definition arrayField ::
  "builtins \<Rightarrow> jsval sparse \<Rightarrow> nat \<Rightarrow> nat \<times> string
     \<Rightarrow> jsobject \<times> bool \<times> typeMap \<Rightarrow> jsobject \<times> bool \<times> typeMap" where
  "arrayField B row r ch st =
     (case (ch, st) of ((c, header), (rowObj, hasValue, tm)) \<Rightarrow>
        let raw = getCellText B (cellAt row c) in
        case castAt B tm (cellPath (r - 1) header) raw of (casted, tm') \<Rightarrow>
          if raw \<noteq> '''' then (assign header casted rowObj, True, tm')
          else (rowObj, hasValue, tm'))"

definition arrayRow ::
  "builtins \<Rightarrow> matrix \<Rightarrow> string list \<Rightarrow> ty option \<Rightarrow> nat
     \<Rightarrow> jsval list \<times> typeMap \<Rightarrow> jsval list \<times> typeMap" where
  "arrayRow B m headers firstElementType r st =
     (case st of (rows, tm) \<Rightarrow>
        let row = rowAt m r in
        if firstElementType \<noteq> None \<and> firstElementType \<noteq> Some TObject then
          (let raw = getCellText B (coalesce (cellAt row 1) (cellAt row 0)) in
           case castAt B tm (rowPath (r - 1)) raw of (casted, tm') \<Rightarrow>
             (if raw \<noteq> '''' then rows @ [casted] else rows, tm'))
        else
          (case fold (arrayField B row r) (enumerate 0 headers) (emptyObject, False, tm) of
             (rowObj, hasValue, tm') \<Rightarrow>
               (if hasValue then rows @ [Obj (own rowObj)] else rows, tm')))"

subsubsection \<open>wrappedArray\<close>

text \<open>
  \<open>setNestedValue\<close> walks the parts of a dotted path, replacing whatever is not an object
  on the way by a fresh object, and assigns the value at the last part. A row object
  holds cast values and the objects made here, never an array. A name that the row
  object inherits holds a function, which is replaced like a missing property; the
  exception is \<open>__proto__\<close>, where the walk steps into \<open>Object.prototype\<close> and the rest of
  the path is written there: the row object stays as it is. (What is written into
  \<open>Object.prototype\<close> is not followed further: the model takes \<open>Object.prototype\<close> to be
  the standard one, and a nested object to keep it as its prototype.)
\<close>

definition childObject :: "jsval option \<Rightarrow> jsobject" where
  "childObject v =
     (case v of Some (Obj kvs) \<Rightarrow> \<lparr> own = kvs, inheritsProto = True \<rparr> | _ \<Rightarrow> emptyObject)"

fun setPath :: "string list \<Rightarrow> jsval \<Rightarrow> jsobject \<Rightarrow> jsobject" where
  "setPath [] v obj = obj"
| "setPath [k] v obj = assign k v obj"
| "setPath (k # k' # ks) v obj =
     (if k = ''__proto__'' \<and> k \<notin> set (map fst (own obj)) \<and> inheritsProto obj then obj
      else obj \<lparr> own :=
             setProp k (Obj (own (setPath (k' # ks) v (childObject (map_of (own obj) k)))))
               (own obj) \<rparr>)"

definition setNestedValue :: "jsobject \<Rightarrow> string \<Rightarrow> jsval \<Rightarrow> jsobject" where
  "setNestedValue target dottedPath v =
     setPath (filter (\<lambda>p. p \<noteq> '''') (splitOn CHR ''.'' dottedPath)) v target"

definition wrappedField ::
  "builtins \<Rightarrow> jsval sparse \<Rightarrow> nat \<Rightarrow> nat \<times> string
     \<Rightarrow> jsobject \<times> bool \<times> typeMap \<Rightarrow> jsobject \<times> bool \<times> typeMap" where
  "wrappedField B row r ch st =
     (case (ch, st) of ((c, header), (rowObj, hasValue, tm)) \<Rightarrow>
        let raw = getCellText B (cellAt row c) in
        case castAt B tm (cellPath (r - 1) header) raw of (casted, tm') \<Rightarrow>
          (setNestedValue rowObj header casted, hasValue \<or> raw \<noteq> '''', tm'))"

definition wrappedRow ::
  "builtins \<Rightarrow> matrix \<Rightarrow> string list \<Rightarrow> nat
     \<Rightarrow> jsval list \<times> typeMap \<Rightarrow> jsval list \<times> typeMap" where
  "wrappedRow B m headers r st =
     (case st of (rows, tm) \<Rightarrow>
        case fold (wrappedField B (rowAt m r) r) (enumerate 0 headers) (emptyObject, False, tm) of
          (rowObj, hasValue, tm') \<Rightarrow>
            (if hasValue then rows @ [Obj (own rowObj)] else rows, tm'))"

text \<open>
  The object literal \<^verbatim>\<open>{ ...meta, [dataProp]: rows }\<close> defines its properties (no
  accessor is called): the properties of \<open>meta\<close>, then the rows under \<open>dataProp\<close>.
\<close>

definition wrapRows :: "wrapper option \<Rightarrow> jsval list \<Rightarrow> jsval" where
  "wrapRows wr rows =
     Obj (setProp
            (case wr of
               Some w \<Rightarrow> if dataProp w \<noteq> '''' then dataProp w else ''data''
             | None \<Rightarrow> ''data'')
            (Arr rows)
            (case wr of Some w \<Rightarrow> meta w | None \<Rightarrow> []))"

subsubsection \<open>objectOfObjects\<close>

fun indexOf :: "'a \<Rightarrow> 'a list \<Rightarrow> nat option" where
  "indexOf x [] = None"
| "indexOf x (y # ys) = (if x = y then Some 0 else map_option Suc (indexOf x ys))"

definition ooHeaders :: "builtins \<Rightarrow> matrix \<Rightarrow> string sparse" where
  "ooHeaders B m = map (map_option (getCellText B)) (rowAt m 0)"

definition ooFieldHeaders :: "string sparse \<Rightarrow> nat option \<Rightarrow> string list" where
  "ooFieldHeaders headers keyColIndex =
     List.map_filter
       (\<lambda>(idx, h). case h of
            Some t \<Rightarrow> if Some idx \<noteq> keyColIndex \<and> t \<noteq> '''' then Some t else None
          | None \<Rightarrow> None)
       (enumerate 0 headers)"

definition ooField ::
  "builtins \<Rightarrow> string sparse \<Rightarrow> nat option \<Rightarrow> jsval sparse \<Rightarrow> string \<Rightarrow> nat \<times> string
     \<Rightarrow> jsobject \<times> typeMap \<Rightarrow> jsobject \<times> typeMap" where
  "ooField B headers keyColIndex row key cf st =
     (case (cf, st) of ((c, field), (inner, tm)) \<Rightarrow>
        let cell = (if keyColIndex = Some 0 then cellAt row (c + 1)
                    else case indexOf (Some field) headers of
                           Some i \<Rightarrow> cellAt row i
                         | None \<Rightarrow> Undefined) in
        case castAt B tm (key @ ''.'' @ field) (getCellText B cell) of (casted, tm') \<Rightarrow>
          (assign field casted inner, tm'))"

definition ooRow ::
  "builtins \<Rightarrow> matrix \<Rightarrow> string sparse \<Rightarrow> nat option \<Rightarrow> string list \<Rightarrow> nat
     \<Rightarrow> jsobject \<times> typeMap \<Rightarrow> jsobject \<times> typeMap" where
  "ooRow B m headers keyColIndex fieldHeaders r st =
     (case st of (result, tm) \<Rightarrow>
        let row = rowAt m r;
            key = getCellText B (cellAt row (case keyColIndex of Some i \<Rightarrow> i | None \<Rightarrow> 0)) in
        if key = '''' then (result, tm)
        else
          case fold (ooField B headers keyColIndex row key) (enumerate 0 fieldHeaders)
                 (emptyObject, tm) of
            (inner, tm') \<Rightarrow> (assignObject key inner result, tm'))"

subsubsection \<open>csv\<close>

definition escapeCsv :: "builtins \<Rightarrow> jsval \<Rightarrow> string" where
  "escapeCsv B v =
     (if v = Null \<or> v = Undefined then ''''
      else let str = js_String B v in
        if list_ex (\<lambda>c. c = CHR 0x22 \<or> c = CHR '','' \<or> c = CHR 0x0A) str
        then [CHR 0x22] @ concat (map (\<lambda>c. if c = CHR 0x22 then [CHR 0x22, CHR 0x22] else [c]) str)
               @ [CHR 0x22]
        else str)"

definition csvCell ::
  "builtins \<Rightarrow> nat \<Rightarrow> nat \<times> jsval option \<Rightarrow> string list \<times> typeMap \<Rightarrow> string list \<times> typeMap" where
  "csvCell B r cs st =
     (case (cs, st) of ((c, slot), (outRow, tm)) \<Rightarrow>
        case slot of
          None \<Rightarrow> (outRow @ [''''], tm)
        | Some cell \<Rightarrow>
            (case castAt B tm (csvPath r c) (getCellText B cell) of (casted, tm') \<Rightarrow>
               (outRow @ [escapeCsv B casted], tm')))"

definition csvRow ::
  "builtins \<Rightarrow> matrix \<Rightarrow> nat \<Rightarrow> string list \<times> typeMap \<Rightarrow> string list \<times> typeMap" where
  "csvRow B m r st =
     (case st of (csvRows, tm) \<Rightarrow>
        case fold (csvCell B r) (enumerate 0 (rowAt m r)) ([], tm) of
          (outRow, tm') \<Rightarrow> (csvRows @ [join '','' outRow], tm'))"

subsubsection \<open>xlsx\<close>

text \<open>
  The text for a workbook is \<open>JSON.stringify\<close> without indentation of the names and the
  cell texts of all sheets; a hole of a matrix prints as \<open>null\<close> there, as \<open>undefined\<close>
  does.
\<close>

definition xlsxSheet :: "builtins \<Rightarrow> nat \<times> sheet \<Rightarrow> jsval" where
  "xlsxSheet B isd =
     (case isd of (idx, s) \<Rightarrow>
        Obj [(''name'',
              Str (js_String B
                     (if truthy (sheet_name s) then sheet_name s
                      else Str (''Sheet'' @ show_nat (idx + 1))))),
             (''matrix'',
              Arr (map (\<lambda>row. case row of
                                 None \<Rightarrow> Undefined
                               | Some cells \<Rightarrow>
                                   Arr (map (\<lambda>cell. case cell of
                                                        None \<Rightarrow> Undefined
                                                      | Some v \<Rightarrow> Str (getCellText B v))
                                          cells))
                     (celldataToMatrix s)))])"

subsubsection \<open>The key-value object\<close>

definition objectRow ::
  "builtins \<Rightarrow> matrix \<Rightarrow> nat \<Rightarrow> jsobject \<times> typeMap \<Rightarrow> jsobject \<times> typeMap" where
  "objectRow B m r st =
     (case st of (result, tm) \<Rightarrow>
        let key = getCellText B (cellAt (rowAt m r) 0) in
        if key = '''' then (result, tm)
        else
          case castAt B tm key (getCellText B (cellAt (rowAt m r) 1)) of (casted, tm') \<Rightarrow>
            (assign key casted result, tm'))"

subsubsection \<open>sheetToText\<close>

text \<open>\<open>sheets[0] || {}\<close>\<close>

definition firstSheet :: "sheet list \<Rightarrow> sheet" where
  "firstSheet sheets = (case sheets of s # _ \<Rightarrow> s | [] \<Rightarrow> emptySheet)"

definition sheetToText ::
  "builtins \<Rightarrow> sheet list \<Rightarrow> typeMap \<Rightarrow> dataKind \<Rightarrow> wrapper option \<Rightarrow> serialized" where
  "sheetToText B sheets currentTypeMap kind wr =
     (let m = celldataToMatrix (firstSheet sheets) in
      case kind of
        KArray \<Rightarrow>
          (case fold (arrayRow B m (tableHeaders B m) (currentTypeMap ''[0]''))
                  [1 ..< length m] ([], currentTypeMap) of
             (rows, tm) \<Rightarrow>
               \<lparr> textOut = OutJson (Arr rows), nextTypeMap = tm, matrixOut = m \<rparr>)
      | KWrappedArray \<Rightarrow>
          (case fold (wrappedRow B m (tableHeaders B m)) [1 ..< length m] ([], currentTypeMap) of
             (rows, tm) \<Rightarrow>
               \<lparr> textOut = OutJson (wrapRows wr rows), nextTypeMap = tm, matrixOut = m \<rparr>)
      | KObjectOfObjects \<Rightarrow>
          (let headers = ooHeaders B m;
               keyColIndex = indexOf (Some ''key'') headers;
               fieldHeaders = ooFieldHeaders headers keyColIndex in
           case fold (ooRow B m headers keyColIndex fieldHeaders) [1 ..< length m]
                  (emptyObject, currentTypeMap) of
             (result, tm) \<Rightarrow>
               \<lparr> textOut = OutJson (Obj (own result)), nextTypeMap = tm, matrixOut = m \<rparr>)
      | KCsv \<Rightarrow>
          (case fold (csvRow B m) [0 ..< length m] ([], currentTypeMap) of
             (csvRows, tm) \<Rightarrow>
               \<lparr> textOut = OutText (join [CHR 0x0A] csvRows), nextTypeMap = tm,
                 matrixOut = m \<rparr>)
      | KXlsx \<Rightarrow>
          \<lparr> textOut = OutText (stringify B (Arr (map (xlsxSheet B) (enumerate 0 sheets)))),
            nextTypeMap = currentTypeMap, matrixOut = m \<rparr>
      | _ \<Rightarrow>
          (case fold (objectRow B m) [0 ..< length m] (emptyObject, currentTypeMap) of
             (result, tm) \<Rightarrow>
               \<lparr> textOut = OutJson (Obj (own result)), nextTypeMap = tm, matrixOut = m \<rparr>))"


subsection \<open>The casts of a serialize pass, for stating its properties\<close>

text \<open>
  \<open>castCalls\<close> lists, in the order of the pass, the path and the cell text of every call of
  \<open>castWithType\<close> that \<open>sheetToText\<close> makes on a matrix; \<open>recordCast\<close> is the effect of one
  such call on the type-hint map. (That the map returned by \<open>sheetToText\<close> is the input
  map after these calls is proved below.)
\<close>

definition recordCast :: "builtins \<Rightarrow> string \<times> string \<Rightarrow> typeMap \<Rightarrow> typeMap" where
  "recordCast B call tm = (case call of (path, raw) \<Rightarrow> snd (castAt B tm path raw))"

definition headerTexts :: "builtins \<Rightarrow> matrix \<Rightarrow> string list \<Rightarrow> nat \<Rightarrow> string list" where
  "headerTexts B m headers r =
     map (\<lambda>(c, header). getCellText B (cellAt (rowAt m r) c)) (enumerate 0 headers)"

definition blankRow :: "builtins \<Rightarrow> matrix \<Rightarrow> string list \<Rightarrow> nat \<Rightarrow> bool" where
  "blankRow B m headers r = list_all (\<lambda>t. t = '''') (headerTexts B m headers r)"

definition tableCalls :: "builtins \<Rightarrow> matrix \<Rightarrow> string list \<Rightarrow> nat \<Rightarrow> (string \<times> string) list" where
  "tableCalls B m headers r =
     map (\<lambda>(c, header). (cellPath (r - 1) header, getCellText B (cellAt (rowAt m r) c)))
       (enumerate 0 headers)"

definition scalarCall :: "builtins \<Rightarrow> matrix \<Rightarrow> nat \<Rightarrow> string \<times> string" where
  "scalarCall B m r =
     (rowPath (r - 1), getCellText B (coalesce (cellAt (rowAt m r) 1) (cellAt (rowAt m r) 0)))"

definition ooKey :: "builtins \<Rightarrow> matrix \<Rightarrow> nat option \<Rightarrow> nat \<Rightarrow> string" where
  "ooKey B m keyColIndex r =
     getCellText B (cellAt (rowAt m r) (case keyColIndex of Some i \<Rightarrow> i | None \<Rightarrow> 0))"

definition ooCalls ::
  "builtins \<Rightarrow> matrix \<Rightarrow> string sparse \<Rightarrow> nat option \<Rightarrow> string list \<Rightarrow> nat
     \<Rightarrow> (string \<times> string) list" where
  "ooCalls B m headers keyColIndex fieldHeaders r =
     (if ooKey B m keyColIndex r = '''' then []
      else map (\<lambda>(c, field).
                  (ooKey B m keyColIndex r @ ''.'' @ field,
                   getCellText B
                     (if keyColIndex = Some 0 then cellAt (rowAt m r) (c + 1)
                      else case indexOf (Some field) headers of
                             Some i \<Rightarrow> cellAt (rowAt m r) i
                           | None \<Rightarrow> Undefined)))
             (enumerate 0 fieldHeaders))"

definition csvCalls :: "builtins \<Rightarrow> matrix \<Rightarrow> nat \<Rightarrow> (string \<times> string) list" where
  "csvCalls B m r =
     List.map_filter
       (\<lambda>(c, slot). map_option (\<lambda>cell. (csvPath r c, getCellText B cell)) slot)
       (enumerate 0 (rowAt m r))"

definition objectCalls :: "builtins \<Rightarrow> matrix \<Rightarrow> nat \<Rightarrow> (string \<times> string) list" where
  "objectCalls B m r =
     (if getCellText B (cellAt (rowAt m r) 0) = '''' then []
      else [(getCellText B (cellAt (rowAt m r) 0), getCellText B (cellAt (rowAt m r) 1))])"

definition castCalls ::
  "builtins \<Rightarrow> dataKind \<Rightarrow> typeMap \<Rightarrow> matrix \<Rightarrow> (string \<times> string) list" where
  "castCalls B kind currentTypeMap m =
     (case kind of
        KArray \<Rightarrow>
          if currentTypeMap ''[0]'' \<noteq> None \<and> currentTypeMap ''[0]'' \<noteq> Some TObject
          then map (scalarCall B m) [1 ..< length m]
          else concat (map (tableCalls B m (tableHeaders B m)) [1 ..< length m])
      | KWrappedArray \<Rightarrow> concat (map (tableCalls B m (tableHeaders B m)) [1 ..< length m])
      | KObjectOfObjects \<Rightarrow>
          concat (map (ooCalls B m (ooHeaders B m) (indexOf (Some ''key'') (ooHeaders B m))
                         (ooFieldHeaders (ooHeaders B m) (indexOf (Some ''key'') (ooHeaders B m))))
                    [1 ..< length m])
      | KCsv \<Rightarrow> concat (map (csvCalls B m) [0 ..< length m])
      | KXlsx \<Rightarrow> []
      | _ \<Rightarrow> concat (map (objectCalls B m) [0 ..< length m]))"

text \<open>A header is free of dots when \<open>setNestedValue\<close> writes it as one key.\<close>

definition dotFree :: "string \<Rightarrow> bool" where
  "dotFree h = (CHR ''.'' \<notin> set h)"

text \<open>Two sheets for the examples: rows of cells as the grid holds them.\<close>

definition textCell :: "string \<Rightarrow> jsval" where
  "textCell s = Obj [(''v'', Str s), (''m'', Str s)]"

definition gridSheet :: "string list list \<Rightarrow> sheet" where
  "gridSheet rows =
     \<lparr> sheet_name = Str ''Sheet1'',
       sheet_data = Some (map (\<lambda>row. Some (map (\<lambda>s. Some (textCell s)) row)) rows),
       sheet_celldata = None \<rparr>"

subsection \<open>The rows of a table, for stating the blank-row laws\<close>

text \<open>
  The text of the cell in row \<open>r\<close> under the header of column \<open>c\<close>, the headers of a row
  whose cell is not empty, and the keys of a row object.
\<close>

definition cellText :: "builtins \<Rightarrow> matrix \<Rightarrow> nat \<Rightarrow> nat \<Rightarrow> string" where
  "cellText B m r c = getCellText B (cellAt (rowAt m r) c)"

definition filledHeaders :: "builtins \<Rightarrow> matrix \<Rightarrow> string list \<Rightarrow> nat \<Rightarrow> string list" where
  "filledHeaders B m headers r =
     map snd (filter (\<lambda>(c, header). cellText B m r c \<noteq> '''') (enumerate 0 headers))"

definition keysOf :: "jsval \<Rightarrow> string set" where
  "keysOf v = (case v of Obj kvs \<Rightarrow> set (map fst kvs) | _ \<Rightarrow> {})"


section \<open>Building the grid (extension.js)\<close>

text \<open>
  A cell of the grid holds the value under \<open>v\<close> and its display text under \<open>m\<close>. For a
  value that is an object or an array the text is \<open>JSON.stringify(value)\<close>.
\<close>

definition createCell :: "builtins \<Rightarrow> nat \<Rightarrow> nat \<Rightarrow> jsval \<Rightarrow> celldataEntry" where
  "createCell B r c v =
     (case (case v of
              Null \<Rightarrow> (''null'', Null)
            | Undefined \<Rightarrow> ('''', Str '''')
            | Arr xs \<Rightarrow> (stringify B v, Str (stringify B v))
            | Obj kvs \<Rightarrow> (stringify B v, Str (stringify B v))
            | _ \<Rightarrow> (js_String B v, v)) of
        (display, rawValue) \<Rightarrow>
          \<lparr> entry_r = r, entry_c = c, entry_v = Obj [(''v'', rawValue), (''m'', Str display)] \<rparr>)"

definition celldataToMatrixFromCells :: "celldataEntry list \<Rightarrow> matrix" where
  "celldataToMatrixFromCells cells =
     fold (\<lambda>cell m. applyValue (entry_r cell) (entry_c cell) (entry_v cell) m) cells []"

text \<open>
  Of the sheet that a builder returns the model keeps what the serializer reads: the
  name, the cells and the matrix made of them.
\<close>

definition sheetOf :: "jsval \<Rightarrow> celldataEntry list \<Rightarrow> sheet" where
  "sheetOf name celldata =
     \<lparr> sheet_name = name, sheet_data = Some (celldataToMatrixFromCells celldata),
       sheet_celldata = Some celldata \<rparr>"

definition inferSimpleHint :: "jsval \<Rightarrow> ty" where
  "inferSimpleHint v =
     (case v of Null \<Rightarrow> TNull | Num n \<Rightarrow> TNumber | Bool b \<Rightarrow> TBoolean | _ \<Rightarrow> TString)"

datatype error = TypeError

text \<open>
  \<open>(xs || []).forEach(...)\<close>: the elements of an array, nothing for a falsy value, and a
  \<open>TypeError\<close> for any other value, which has no method \<open>forEach\<close>.
\<close>

definition elementsOf :: "jsval \<Rightarrow> error + jsval list" where
  "elementsOf v = (case v of Arr xs \<Rightarrow> Inr xs | _ \<Rightarrow> if truthy v then Inl TypeError else Inr [])"

definition matrixCell ::
  "builtins \<Rightarrow> nat \<Rightarrow> nat \<times> jsval \<Rightarrow> celldataEntry list \<times> typeMap
     \<Rightarrow> celldataEntry list \<times> typeMap" where
  "matrixCell B r cv st =
     (case (cv, st) of ((c, v), (celldata, tm)) \<Rightarrow>
        (celldata @ [createCell B r c (if v = Undefined \<or> v = Null then Str '''' else v)],
         tm(csvPath r c \<mapsto> inferSimpleHint v)))"

definition matrixRow ::
  "builtins \<Rightarrow> nat \<times> jsval \<Rightarrow> error + celldataEntry list \<times> typeMap
     \<Rightarrow> error + celldataEntry list \<times> typeMap" where
  "matrixRow B rr acc =
     (case (rr, acc) of
        ((r, row), Inr st) \<Rightarrow>
          (case elementsOf row of
             Inr cells \<Rightarrow> Inr (fold (matrixCell B r) (enumerate 0 cells) st)
           | Inl e \<Rightarrow> Inl e)
      | (_, Inl e) \<Rightarrow> Inl e)"

text \<open>
  \<open>createSheetFromMatrix(matrix, sheetName = 'Sheet1')\<close>. After the cells are made the
  size of the sheet is computed from \<open>matrix.length\<close>, which raises a \<open>TypeError\<close> when
  the matrix is \<open>undefined\<close> or \<open>null\<close>.
\<close>

definition createSheetFromMatrix :: "builtins \<Rightarrow> jsval \<Rightarrow> jsval \<Rightarrow> error + sheet \<times> typeMap" where
  "createSheetFromMatrix B matrix sheetName =
     (case elementsOf matrix of
        Inl e \<Rightarrow> Inl e
      | Inr rows \<Rightarrow>
          (case fold (matrixRow B) (enumerate 0 rows) (Inr ([], Map.empty)) of
             Inl e \<Rightarrow> Inl e
           | Inr (celldata, tm) \<Rightarrow>
               if matrix = Undefined \<or> matrix = Null then Inl TypeError
               else Inr (sheetOf (if sheetName = Undefined then Str ''Sheet1'' else sheetName)
                           celldata, tm)))"

text \<open>The key-value object: a row for every entry, or the row \<open>key\<close>, \<open>value\<close> for none.\<close>

definition createSheetFromObject :: "builtins \<Rightarrow> (string \<times> jsval) list \<Rightarrow> sheet" where
  "createSheetFromObject B entries =
     sheetOf (Str ''Sheet1'')
       (concat (map (\<lambda>(rowIndex, key, v).
                       [createCell B rowIndex 0 (Str key), createCell B rowIndex 1 v])
                  (enumerate 0 entries))
        @ (if entries = [] then [createCell B 0 0 (Str ''key''), createCell B 0 1 (Str ''value'')]
           else []))"

text \<open>
  A table: the header row, then for every flat row the value of each header, or the
  empty string where the row has no such property of its own.
\<close>

definition ownOr :: "(string \<times> jsval) list \<Rightarrow> string \<Rightarrow> jsval" where
  "ownOr flat key = (case map_of flat key of Some v \<Rightarrow> v | None \<Rightarrow> Str '''')"

definition createSheetFromFlatRows ::
  "builtins \<Rightarrow> string list \<Rightarrow> (string \<times> jsval) list list \<Rightarrow> sheet" where
  "createSheetFromFlatRows B headers rows =
     sheetOf (Str ''Sheet1'')
       (map (\<lambda>(c, key). createCell B 0 c (Str key)) (enumerate 0 headers)
        @ concat (map (\<lambda>(rowIndex, rowObj).
                         map (\<lambda>(c, key). createCell B (rowIndex + 1) c (ownOr rowObj key))
                           (enumerate 0 headers))
                    (enumerate 0 rows)))"

definition createSheetFromObjectOfObjects ::
  "builtins \<Rightarrow> string list \<Rightarrow> (string \<times> (string \<times> jsval) list) list \<Rightarrow> sheet" where
  "createSheetFromObjectOfObjects B fieldHeaders rows =
     sheetOf (Str ''Sheet1'')
       (map (\<lambda>(c, h). createCell B 0 c (Str h)) (enumerate 0 (''key'' # fieldHeaders))
        @ concat (map (\<lambda>(idx, key, fields).
                         createCell B (idx + 1) 0 (Str key)
                         # map (\<lambda>(cIdx, field). createCell B (idx + 1) (cIdx + 1) (ownOr fields field))
                             (enumerate 0 fieldHeaders))
                    (enumerate 0 rows)))"

text \<open>The headers of a table: the keys of the flat rows in the order of their first use.\<close>

definition addHeaders :: "string list \<Rightarrow> string list \<Rightarrow> string list" where
  "addHeaders keys headers = fold (\<lambda>key hs. if key \<in> set hs then hs else hs @ [key]) keys headers"

text \<open>
  \<open>prepareObjectOfObjects\<close> flattens the inner objects in the order of the keys and
  stops at the first one that is rejected, with its messages joined by a space.
\<close>

fun prepareObjectOfObjects ::
  "builtins \<Rightarrow> (string \<times> jsval) list \<Rightarrow> string list \<Rightarrow> (string \<times> (string \<times> jsval) list) list
     \<Rightarrow> string + string list \<times> (string \<times> (string \<times> jsval) list) list" where
  "prepareObjectOfObjects B [] fieldHeaders rows = Inr (fieldHeaders, rows)"
| "prepareObjectOfObjects B ((k, inner) # rest) fieldHeaders rows =
     (case flattenInnerObject B inner k of
        FlatErr errors \<Rightarrow> Inl (join '' '' errors)
      | FlatOk flat \<Rightarrow>
          prepareObjectOfObjects B rest (addHeaders (map fst flat) fieldHeaders)
            (rows @ [(k, flat)]))"

text \<open>
  The loop over the rows of an array shape, which stops at the first row that is
  rejected; \<open>i\<close> is the index of the first row of the list.
\<close>

fun flattenRows ::
  "builtins \<Rightarrow> nat \<Rightarrow> jsval list \<Rightarrow> string list \<Rightarrow> (string \<times> jsval) list list
     \<Rightarrow> string + string list \<times> (string \<times> jsval) list list" where
  "flattenRows B i [] headers flattenedRows = Inr (headers, flattenedRows)"
| "flattenRows B i (row # rest) headers flattenedRows =
     (case flattenRowObject B row of
        FlatErr errors \<Rightarrow>
          Inl (''Unsupported JSON at row['' @ show_nat i @ '']: '' @ join '' '' errors)
      | FlatOk flat \<Rightarrow>
          flattenRows B (i + 1) rest (addHeaders (map fst flat) headers)
            (flattenedRows @ [flat]))"

text \<open>
  What the extension sends to the editor for a document. (The payload also carries the
  text of the document, which the serializer does not read.)
\<close>

record payload =
  payload_sheets :: "sheet list"
  payload_typeMap :: typeMap
  payload_dataKind :: dataKind
  payload_error :: "string option"
  payload_wrapper :: "wrapper option"

definition unsupported :: "string \<Rightarrow> payload" where
  "unsupported reason =
     \<lparr> payload_sheets = [], payload_typeMap = Map.empty, payload_dataKind = KUnsupported,
       payload_error = Some reason, payload_wrapper = None \<rparr>"

definition loaded :: "sheet list \<Rightarrow> typeMap \<Rightarrow> dataKind \<Rightarrow> wrapper option \<Rightarrow> payload" where
  "loaded sheets tm kind wr =
     \<lparr> payload_sheets = sheets, payload_typeMap = tm, payload_dataKind = kind,
       payload_error = None, payload_wrapper = wr \<rparr>"

text \<open>The sheets of a workbook; an entry that is \<open>null\<close> has no property to read.\<close>

fun xlsxSheets :: "builtins \<Rightarrow> jsval list \<Rightarrow> error + sheet list" where
  "xlsxSheets B [] = Inr []"
| "xlsxSheets B (s # rest) =
     (if s = Null \<or> s = Undefined then Inl TypeError
      else case createSheetFromMatrix B (getProp s ''matrix'') (getProp s ''name'') of
             Inl e \<Rightarrow> Inl e
           | Inr (sh, tm) \<Rightarrow>
               (case xlsxSheets B rest of Inl e \<Rightarrow> Inl e | Inr shs \<Rightarrow> Inr (sh # shs)))"

definition toSheetPayloadFromContent :: "builtins \<Rightarrow> jsval \<Rightarrow> error + payload" where
  "toSheetPayloadFromContent B content =
     (if truthy content \<and> getProp content ''dataKind'' = Str ''csv'' then
        (case createSheetFromMatrix B (getProp content ''matrix'') Undefined of
           Inl e \<Rightarrow> Inl e
         | Inr (sh, tm) \<Rightarrow> Inr (loaded [sh] tm KCsv None))
      else if truthy content \<and> getProp content ''dataKind'' = Str ''xlsx'' then
        (case xlsxSheets B
                (if isArray (getProp content ''sheets'')
                 then (case getProp content ''sheets'' of Arr ss \<Rightarrow> ss | _ \<Rightarrow> [])
                 else if isArray (getProp content ''matrix'')
                 then [Obj [(''name'', Str ''Sheet1''), (''matrix'', getProp content ''matrix'')]]
                 else [Obj [(''name'', Str ''Sheet1''), (''matrix'', Arr [Arr []])]]) of
           Inl e \<Rightarrow> Inl e
         | Inr shs \<Rightarrow> Inr (loaded shs Map.empty KXlsx None))
      else
        Inr (case validateAndExtract content of
               Rejected reason \<Rightarrow> unsupported reason
             | ObjectKV obj \<Rightarrow> loaded [createSheetFromObject B obj] Map.empty KObject None
             | ObjectOfObjects obj \<Rightarrow>
                 (case prepareObjectOfObjects B obj [] [] of
                    Inl reason \<Rightarrow> unsupported reason
                  | Inr (fieldHeaders, rows) \<Rightarrow>
                      loaded [createSheetFromObjectOfObjects B fieldHeaders rows] Map.empty
                        KObjectOfObjects None)
             | ArrayKind d \<Rightarrow>
                 (case flattenRows B 0 d [] [] of
                    Inl reason \<Rightarrow> unsupported reason
                  | Inr (headers, rows) \<Rightarrow>
                      loaded [createSheetFromFlatRows B headers rows] Map.empty KArray None)
             | WrappedArray d m prop \<Rightarrow>
                 (case flattenRows B 0 d [] [] of
                    Inl reason \<Rightarrow> unsupported reason
                  | Inr (headers, rows) \<Rightarrow>
                      loaded [createSheetFromFlatRows B headers rows] Map.empty KWrappedArray
                        (Some \<lparr> meta = m, dataProp = prop \<rparr>))))"

text \<open>
  The first serialization of a loaded document, as the editor computes it on \<open>init\<close> from
  the payload: \<open>None\<close> when the extension raised an error or sent an error message
  (a text that is not empty) with the payload.
\<close>

definition firstSerialization :: "builtins \<Rightarrow> jsval \<Rightarrow> serialized option" where
  "firstSerialization B content =
     (case toSheetPayloadFromContent B content of
        Inl e \<Rightarrow> None
      | Inr p \<Rightarrow>
          if payload_error p \<noteq> None \<and> payload_error p \<noteq> Some ''''  then None
          else Some (sheetToText B (payload_sheets p) (payload_typeMap p) (payload_dataKind p)
                       (payload_wrapper p)))"


section \<open>Properties of the cast engine\<close>

subsection \<open>Trimming\<close>

lemma trim_ends:
  assumes "trim s \<noteq> []"
  shows "\<not> is_ws (hd (trim s))" and "\<not> is_ws (last (trim s))"
proof -
  define u where "u = dropWhile is_ws s"
  define v where "v = dropWhile is_ws (rev u)"
  have t: "trim s = rev v" by (simp add: trim_def u_def v_def)
  with assms have vne: "v \<noteq> []" by simp
  then have hv: "\<not> is_ws (hd v)" unfolding v_def by (rule hd_dropWhile)
  have "rev u = takeWhile is_ws (rev u) @ v" by (simp add: v_def)
  then have ueq: "u = rev v @ rev (takeWhile is_ws (rev u))"
    by (metis rev_append rev_rev_ident)
  with vne have une: "u \<noteq> []" by auto
  then have hu: "\<not> is_ws (hd u)" unfolding u_def by (rule hd_dropWhile)
  from ueq vne have "hd u = hd (rev v)" by (metis hd_append2 rev_is_Nil_conv)
  with hu show "\<not> is_ws (hd (trim s))" by (simp add: t)
  from hv vne show "\<not> is_ws (last (trim s))" by (simp add: t last_rev)
qed

lemma trim_fix:
  assumes "t = [] \<or> (\<not> is_ws (hd t) \<and> \<not> is_ws (last t))"
  shows "trim t = t"
proof (cases "t = []")
  case True then show ?thesis by (simp add: trim_def)
next
  case False
  with assms have h: "\<not> is_ws (hd t)" and l: "\<not> is_ws (last t)" by auto
  from False h have d1: "dropWhile is_ws t = t" by (cases t) auto
  from False l have "\<not> is_ws (hd (rev t))" by (simp add: hd_rev)
  with False have d2: "dropWhile is_ws (rev t) = rev t" by (cases "rev t") auto
  show ?thesis by (simp add: trim_def d1 d2)
qed

lemma trim_idem: "trim (trim s) = trim s"
  using trim_ends [of s] by (intro trim_fix) blast

lemma trim_Nil [simp]: "trim [] = []"
  by (simp add: trim_def)

lemma trim_all_ws:
  assumes "list_all is_ws s"
  shows "trim s = []"
proof -
  from assms have d: "dropWhile is_ws s = []" by (simp only: dropWhile_eq_Nil_conv list_all_iff)
  show ?thesis unfolding trim_def d by simp
qed

lemma trim_padded:
  assumes pre: "list_all is_ws pre" and post: "list_all is_ws post"
  shows "trim (pre @ t @ post) = trim t"
proof -
  from pre have d1: "dropWhile is_ws (pre @ t @ post) = dropWhile is_ws (t @ post)"
    by (simp add: list_all_iff)
  have p: "trim (pre @ t @ post) = trim (t @ post)"
    unfolding trim_def d1 by (rule refl)
  show ?thesis
  proof (cases "list_all is_ws t")
    case True
    with post have "list_all is_ws (t @ post)" by simp
    then have "trim (t @ post) = []" by (rule trim_all_ws)
    moreover from True have "trim t = []" by (rule trim_all_ws)
    ultimately show ?thesis by (simp only: p)
  next
    case False
    then obtain x where x: "x \<in> set t" "\<not> is_ws x" by (auto simp: list_all_iff)
    have d2: "dropWhile is_ws (t @ post) = dropWhile is_ws t @ post"
      using x by (rule dropWhile_append1)
    from post have q: "\<And>y. y \<in> set (rev post) \<Longrightarrow> is_ws y"
      by (simp add: list_all_iff)
    have d3: "dropWhile is_ws (rev post @ rev (dropWhile is_ws t))
        = dropWhile is_ws (rev (dropWhile is_ws t))"
      using q by (rule dropWhile_append2)
    have "trim (t @ post) = trim t"
      unfolding trim_def d2 rev_append d3 by (rule refl)
    with p show ?thesis by (simp only:)
  qed
qed

subsection \<open>The rules of the cast\<close>

text \<open>
  C4, as amended. For every cell text and every remembered hint, \<open>castWithType\<close> returns
  what the prioritized rules give on the text with its leading and trailing white space
  removed: a quoted empty marker and the empty text give the empty string with type
  string; without a hint or with the hint string, free-form inference (true or false in
  any case a boolean, null in any case null, a text that reads as a finite number that
  number, anything else a string); with the hint number the number read when it is
  finite and the string otherwise; with the hint boolean true or false in any case, and
  true for any other text; with the hint null always null. The function has no failing
  branch: it returns a pair of a value and a type for every input.
\<close>

theorem castWithType_rules_on_trimmed:
  "castWithType B raw hint = castRules B (trim raw) hint"
  by (cases "Number B (trim raw)")
     (auto simp: castWithType_def castRules_def inferType_def isFinite_def Let_def)

text \<open>
  C4, as stated, reads the rules on the cell text itself. The text of a space followed
  by \<open>true\<close> is not \<open>true\<close> in any case and does not read as a number, so the rules keep
  it as a string; \<open>castWithType\<close> returns the boolean.
\<close>

theorem castWithType_rules_counterexample:
  "castWithType intBuiltins '' true'' None = (Bool True, TBoolean)
   \<and> castRules intBuiltins '' true'' None = (Str '' true'', TString)"
  by (simp add: castWithType_def castRules_def inferType_def trim_def is_ws_def
      dq_marker_def sq_marker_def test_ci_def lower_ascii_def intBuiltins_def intNumber_def
      isFinite_def is_digit_def)

subsection \<open>White space around the text\<close>

lemma castWithType_string_trimmed:
  assumes "castWithType B raw hint = (Str s, TString)"
  shows "trim s = s"
proof -
  have t: "trim (trim raw) = trim raw" by (rule trim_idem)
  from assms show ?thesis
    by (auto simp: castWithType_def inferType_def Let_def t
             split: if_splits jsnum.splits)
qed

text \<open>
  C9. \<open>castWithType\<close> returns the same for a text and for the trimmed text. So a cell of
  white space only is a cleared cell (the empty string, type string), a quoted empty
  marker with white space around it still gives the empty string, and a result of type
  string never carries white space at either end.
\<close>

theorem castWithType_trim_invariant:
  "castWithType B raw hint = castWithType B (trim raw) hint
   \<and> (list_all is_ws raw \<longrightarrow> castWithType B raw hint = (Str '''', TString))
   \<and> (list_all is_ws pre \<and> list_all is_ws post \<longrightarrow>
        castWithType B (pre @ dq_marker @ post) hint = (Str '''', TString)
        \<and> castWithType B (pre @ sq_marker @ post) hint = (Str '''', TString))
   \<and> (snd (castWithType B raw hint) = TString \<longrightarrow>
        (\<exists>s. fst (castWithType B raw hint) = Str s \<and> trim s = s))"
proof (intro conjI impI)
  show "castWithType B raw hint = castWithType B (trim raw) hint"
    by (simp add: castWithType_def trim_idem)
next
  assume "list_all is_ws raw"
  then have "trim raw = []" by (rule trim_all_ws)
  then show "castWithType B raw hint = (Str '''', TString)"
    by (simp add: castWithType_def)
next
  assume a: "list_all is_ws pre \<and> list_all is_ws post"
  have "trim dq_marker = dq_marker"
    by (simp add: trim_def dq_marker_def is_ws_def)
  with a have "trim (pre @ dq_marker @ post) = dq_marker" by (simp add: trim_padded)
  then show "castWithType B (pre @ dq_marker @ post) hint = (Str '''', TString)"
    by (simp add: castWithType_def)
next
  assume a: "list_all is_ws pre \<and> list_all is_ws post"
  have "trim sq_marker = sq_marker"
    by (simp add: trim_def sq_marker_def is_ws_def)
  with a have "trim (pre @ sq_marker @ post) = sq_marker" by (simp add: trim_padded)
  then show "castWithType B (pre @ sq_marker @ post) hint = (Str '''', TString)"
    by (simp add: castWithType_def)
next
  assume a: "snd (castWithType B raw hint) = TString"
  obtain v t where vt: "castWithType B raw hint = (v, t)" by (cases "castWithType B raw hint")
  with a have t: "t = TString" by simp
  from vt t obtain s where s: "v = Str s"
    by (auto simp: castWithType_def inferType_def Let_def split: if_splits jsnum.splits)
  with vt t have "trim s = s" by (auto intro: castWithType_string_trimmed)
  with vt s show "\<exists>s. fst (castWithType B raw hint) = Str s \<and> trim s = s" by simp
qed

theorem castWithType_trim_invariant_witness:
  "castWithType intBuiltins '' 42  '' (Some TNumber) = castWithType intBuiltins ''42'' (Some TNumber)
   \<and> castWithType intBuiltins ''   '' (Some TNumber) = (Str '''', TString)
   \<and> castWithType intBuiltins (''  '' @ dq_marker @ '' '') (Some TBoolean) = (Str '''', TString)
   \<and> (\<exists>s. fst (castWithType intBuiltins ''  a b  '' None) = Str s \<and> trim s = s)"
proof -
  note T = castWithType_trim_invariant
  have t: "trim '' 42  '' = ''42''" by (simp add: trim_def is_ws_def)
  have 1: "castWithType intBuiltins '' 42  '' (Some TNumber)
             = castWithType intBuiltins ''42'' (Some TNumber)"
    using T [of intBuiltins "'' 42  ''" "Some TNumber", THEN conjunct1] t by simp
  have 2: "castWithType intBuiltins ''   '' (Some TNumber) = (Str '''', TString)"
    using T [of intBuiltins "''   ''" "Some TNumber", THEN conjunct2, THEN conjunct1]
    by (simp add: is_ws_def)
  have 3: "castWithType intBuiltins (''  '' @ dq_marker @ '' '') (Some TBoolean)
             = (Str '''', TString)"
    using T [of intBuiltins _ "Some TBoolean" "''  ''" "'' ''",
             THEN conjunct2, THEN conjunct2, THEN conjunct1]
    by (simp add: is_ws_def)
  have s: "snd (castWithType intBuiltins ''  a b  '' None) = TString"
    by (simp add: castWithType_def inferType_def trim_def is_ws_def
      dq_marker_def sq_marker_def test_ci_def lower_ascii_def intBuiltins_def intNumber_def
      is_digit_def)
  have 4: "\<exists>s. fst (castWithType intBuiltins ''  a b  '' None) = Str s \<and> trim s = s"
    by (rule T [of intBuiltins "''  a b  ''" None,
             THEN conjunct2, THEN conjunct2, THEN conjunct2, THEN mp, OF s])
  show ?thesis by (rule conjI [OF 1 conjI [OF 2 conjI [OF 3 4]]])
qed


section \<open>Properties of the shape rules\<close>

subsection \<open>The shape detector\<close>

text \<open>
  C5. \<open>validateAndExtract\<close> classifies a parsed document by the first rule that applies:
  a plain object whose property \<open>data\<close> is an array is a wrapped array, with every other
  own property as its meta; otherwise an array is an array; otherwise a plain object all
  of whose values are primitives or arrays of primitives is a key-value object; otherwise
  a plain object all of whose values are plain objects is an object of objects; otherwise
  a plain object is rejected as an unsupported root object; any other value is rejected
  with the reason "Unsupported JSON. Expected an array or an object.". The mixed object
  with \<open>a\<close> an object and \<open>c\<close> an array of numbers is rejected.
\<close>

theorem validateAndExtract_precedence:
  "(getProp (Obj kvs) ''data'' = Arr d \<longrightarrow>
      validateAndExtract (Obj kvs)
        = WrappedArray d (filter (\<lambda>(k, v). k \<noteq> ''data'') kvs) ''data'')
   \<and> validateAndExtract (Arr xs) = ArrayKind xs
   \<and> (\<not> isArray (getProp (Obj kvs) ''data'')
        \<and> list_all (\<lambda>v. isPrimitive v \<or> isArrayOfPrimitives v) (map snd kvs) \<longrightarrow>
      validateAndExtract (Obj kvs) = ObjectKV kvs)
   \<and> (\<not> isArray (getProp (Obj kvs) ''data'')
        \<and> \<not> list_all (\<lambda>v. isPrimitive v \<or> isArrayOfPrimitives v) (map snd kvs)
        \<and> list_all isPlainObject (map snd kvs) \<longrightarrow>
      validateAndExtract (Obj kvs) = ObjectOfObjects kvs)
   \<and> (\<not> isArray (getProp (Obj kvs) ''data'')
        \<and> \<not> list_all (\<lambda>v. isPrimitive v \<or> isArrayOfPrimitives v) (map snd kvs)
        \<and> \<not> list_all isPlainObject (map snd kvs) \<longrightarrow>
      validateAndExtract (Obj kvs)
        = Rejected ''Unsupported JSON root object. Use either (1) key/value pairs with primitive values, or (2) key/object pairs where the inner objects only contain primitive fields.'')
   \<and> (\<not> isPlainObject c \<and> \<not> isArray c \<longrightarrow>
      validateAndExtract c = Rejected ''Unsupported JSON. Expected an array or an object.'')
   \<and> (\<exists>reason. validateAndExtract
         (Obj [(''a'', Obj [(''b'', Num (Fin 1))]), (''c'', Arr [Num (Fin 1), Num (Fin 2)])])
        = Rejected reason)"
proof (intro conjI impI)
  assume "getProp (Obj kvs) ''data'' = Arr d"
  then show "validateAndExtract (Obj kvs)
      = WrappedArray d (filter (\<lambda>(k, v). k \<noteq> ''data'') kvs) ''data''"
    by (simp add: validateAndExtract_def optionalArrayWrapperProperty_def)
next
  show "validateAndExtract (Arr xs) = ArrayKind xs"
    by (simp add: validateAndExtract_def)
next
  assume "\<not> isArray (getProp (Obj kvs) ''data'')
        \<and> list_all (\<lambda>v. isPrimitive v \<or> isArrayOfPrimitives v) (map snd kvs)"
  then show "validateAndExtract (Obj kvs) = ObjectKV kvs"
    by (cases "getProp (Obj kvs) ''data''")
       (simp_all add: validateAndExtract_def optionalArrayWrapperProperty_def
          allowArrayOfPrimitives_def isArray_def)
next
  assume "\<not> isArray (getProp (Obj kvs) ''data'')
        \<and> \<not> list_all (\<lambda>v. isPrimitive v \<or> isArrayOfPrimitives v) (map snd kvs)
        \<and> list_all isPlainObject (map snd kvs)"
  then show "validateAndExtract (Obj kvs) = ObjectOfObjects kvs"
    by (cases "getProp (Obj kvs) ''data''")
       (simp_all add: validateAndExtract_def optionalArrayWrapperProperty_def
          allowArrayOfPrimitives_def isArray_def)
next
  assume "\<not> isArray (getProp (Obj kvs) ''data'')
        \<and> \<not> list_all (\<lambda>v. isPrimitive v \<or> isArrayOfPrimitives v) (map snd kvs)
        \<and> \<not> list_all isPlainObject (map snd kvs)"
  then show "validateAndExtract (Obj kvs)
        = Rejected ''Unsupported JSON root object. Use either (1) key/value pairs with primitive values, or (2) key/object pairs where the inner objects only contain primitive fields.''"
    by (cases "getProp (Obj kvs) ''data''")
       (simp_all add: validateAndExtract_def optionalArrayWrapperProperty_def
          allowArrayOfPrimitives_def isArray_def reason_root_object_def)
next
  assume "\<not> isPlainObject c \<and> \<not> isArray c"
  then show "validateAndExtract c = Rejected ''Unsupported JSON. Expected an array or an object.''"
    by (cases c)
       (simp_all add: validateAndExtract_def isPlainObject_def isArray_def
          reason_not_array_or_object_def)
next
  show "\<exists>reason. validateAndExtract
         (Obj [(''a'', Obj [(''b'', Num (Fin 1))]), (''c'', Arr [Num (Fin 1), Num (Fin 2)])])
        = Rejected reason"
    by (simp add: validateAndExtract_def optionalArrayWrapperProperty_def getProp_def
        allowArrayOfPrimitives_def isPrimitive_def isArrayOfPrimitives_def isPlainObject_def)
qed

theorem validateAndExtract_precedence_witness:
  "validateAndExtract (Obj [(''version'', Num (Fin 1)), (''data'', Arr [Obj [(''x'', Num (Fin 1))]])])
     = WrappedArray [Obj [(''x'', Num (Fin 1))]] [(''version'', Num (Fin 1))] ''data''
   \<and> validateAndExtract (Obj [(''a'', Num (Fin 1)), (''b'', Arr [Null, Str ''x''])])
     = ObjectKV [(''a'', Num (Fin 1)), (''b'', Arr [Null, Str ''x''])]
   \<and> validateAndExtract (Obj [(''alice'', Obj [(''age'', Num (Fin 30))])])
     = ObjectOfObjects [(''alice'', Obj [(''age'', Num (Fin 30))])]
   \<and> validateAndExtract (Obj [(''a'', Obj [(''b'', Num (Fin 1))]), (''c'', Arr [Num (Fin 1), Num (Fin 2)])])
     = Rejected ''Unsupported JSON root object. Use either (1) key/value pairs with primitive values, or (2) key/object pairs where the inner objects only contain primitive fields.''
   \<and> validateAndExtract (Str ''x'')
     = Rejected ''Unsupported JSON. Expected an array or an object.''"
proof -
  note T = validateAndExtract_precedence
  have 1: "validateAndExtract (Obj [(''version'', Num (Fin 1)), (''data'', Arr [Obj [(''x'', Num (Fin 1))]])])
     = WrappedArray [Obj [(''x'', Num (Fin 1))]] [(''version'', Num (Fin 1))] ''data''"
    using T [of "[(''version'', Num (Fin 1)), (''data'', Arr [Obj [(''x'', Num (Fin 1))]])]"
               "[Obj [(''x'', Num (Fin 1))]]", THEN conjunct1]
    by (simp add: getProp_def)
  have 2: "validateAndExtract (Obj [(''a'', Num (Fin 1)), (''b'', Arr [Null, Str ''x''])])
     = ObjectKV [(''a'', Num (Fin 1)), (''b'', Arr [Null, Str ''x''])]"
    using T [of "[(''a'', Num (Fin 1)), (''b'', Arr [Null, Str ''x''])]",
             THEN conjunct2, THEN conjunct2, THEN conjunct1]
    by (simp add: getProp_def isArray_def isPrimitive_def isArrayOfPrimitives_def)
  have 3: "validateAndExtract (Obj [(''alice'', Obj [(''age'', Num (Fin 30))])])
     = ObjectOfObjects [(''alice'', Obj [(''age'', Num (Fin 30))])]"
    using T [of "[(''alice'', Obj [(''age'', Num (Fin 30))])]",
             THEN conjunct2, THEN conjunct2, THEN conjunct2, THEN conjunct1]
    by (simp add: getProp_def isArray_def isPrimitive_def isArrayOfPrimitives_def
        isPlainObject_def)
  have 4: "validateAndExtract (Obj [(''a'', Obj [(''b'', Num (Fin 1))]), (''c'', Arr [Num (Fin 1), Num (Fin 2)])])
     = Rejected ''Unsupported JSON root object. Use either (1) key/value pairs with primitive values, or (2) key/object pairs where the inner objects only contain primitive fields.''"
    using T [of "[(''a'', Obj [(''b'', Num (Fin 1))]), (''c'', Arr [Num (Fin 1), Num (Fin 2)])]",
             THEN conjunct2, THEN conjunct2, THEN conjunct2, THEN conjunct2, THEN conjunct1]
    by (simp add: getProp_def isArray_def isPrimitive_def isArrayOfPrimitives_def
        isPlainObject_def)
  have 5: "validateAndExtract (Str ''x'')
     = Rejected ''Unsupported JSON. Expected an array or an object.''"
    using T [of _ _ _ "Str ''x''",
             THEN conjunct2, THEN conjunct2, THEN conjunct2, THEN conjunct2, THEN conjunct2,
             THEN conjunct1]
    by (simp add: isArray_def isPlainObject_def)
  show ?thesis by (rule conjI [OF 1 conjI [OF 2 conjI [OF 3 conjI [OF 4 5]]]])
qed


subsection \<open>The flatteners\<close>

lemma value_kinds:
  "isPrimitive v \<or> isArray v \<or> isPlainObject v"
  "isPrimitive v \<Longrightarrow> \<not> rejectedValue v"
  "isArrayOfPrimitives v \<Longrightarrow> \<not> rejectedValue v \<and> \<not> isPrimitive v \<and> isArray v"
  "rejectedValue v \<Longrightarrow> \<not> isPrimitive v"
  by (cases v; simp add: isPrimitive_def isArray_def isPlainObject_def rejectedValue_def
        isArrayOfPrimitives_def)+

lemma rowField_step:
  "rowField B (k, v) (out, errors) =
     (if rejectedValue v then (out, errors @ [rowError k v])
      else (assign k (flatValue B v) out, errors))"
  by (cases v)
     (simp_all add: rowField_def rejectedValue_def flatValue_def rowError_def isPrimitive_def
        isArray_def isPlainObject_def allowArrayOfPrimitives_def)

lemma innerField_step:
  "innerField B parent (k, v) (out, errors) =
     (if rejectedValue v then (out, errors @ [innerError parent k v])
      else (assign k (flatValue B v) out, errors))"
  by (cases v)
     (simp_all add: innerField_def rejectedValue_def flatValue_def innerError_def isPrimitive_def
        isArray_def isPlainObject_def allowArrayOfPrimitives_def Let_def)

lemma fold_rowField:
  "fold (rowField B) kvs (out, errors) =
     (fold (\<lambda>(k, v) acc. assign k (flatValue B v) acc)
        (filter (\<lambda>(k, v). \<not> rejectedValue v) kvs) out,
      errors @ map (\<lambda>(k, v). rowError k v) (filter (\<lambda>(k, v). rejectedValue v) kvs))"
proof (induction kvs arbitrary: out errors)
  case Nil
  then show ?case by simp
next
  case (Cons kv kvs)
  obtain k v where kv: "kv = (k, v)" by (cases kv)
  show ?case
    by (cases "rejectedValue v") (simp_all add: kv rowField_step Cons.IH)
qed

lemma fold_innerField:
  "fold (innerField B parent) kvs (out, errors) =
     (fold (\<lambda>(k, v) acc. assign k (flatValue B v) acc)
        (filter (\<lambda>(k, v). \<not> rejectedValue v) kvs) out,
      errors @ map (\<lambda>(k, v). innerError parent k v) (filter (\<lambda>(k, v). rejectedValue v) kvs))"
proof (induction kvs arbitrary: out errors)
  case Nil
  then show ?case by simp
next
  case (Cons kv kvs)
  obtain k v where kv: "kv = (k, v)" by (cases kv)
  show ?case
    by (cases "rejectedValue v") (simp_all add: kv innerField_step Cons.IH)
qed

lemma filter_none_rejected:
  "list_all (\<lambda>(k, v). \<not> rejectedValue v) kvs \<Longrightarrow>
     filter (\<lambda>(k, v). rejectedValue v) kvs = []
     \<and> filter (\<lambda>(k, v). \<not> rejectedValue v) kvs = kvs"
  by (induction kvs) auto

lemma filter_some_rejected:
  "\<not> list_all (\<lambda>(k, v). \<not> rejectedValue v) kvs \<Longrightarrow>
     filter (\<lambda>(k, v). rejectedValue v) kvs \<noteq> []"
  by (induction kvs) auto

text \<open>
  Without a rejected field the flat object is the empty object after the assignments
  \<open>out[key] = value\<close> of the fields, in their order; with one, the result is the list of
  the messages of all rejected fields, in their order.
\<close>

lemma flattenRowObject_ok:
  assumes "list_all (\<lambda>(k, v). \<not> rejectedValue v) kvs"
  shows "flattenRowObject B (Obj kvs)
    = FlatOk (own (fold (\<lambda>(k, v) acc. assign k (flatValue B v) acc) kvs emptyObject))"
  using filter_none_rejected [OF assms] by (simp add: flattenRowObject_def fold_rowField)

lemma flattenRowObject_err:
  assumes "\<not> list_all (\<lambda>(k, v). \<not> rejectedValue v) kvs"
  shows "flattenRowObject B (Obj kvs)
    = FlatErr (map (\<lambda>(k, v). rowError k v) (filter (\<lambda>(k, v). rejectedValue v) kvs))"
  using filter_some_rejected [OF assms] by (simp add: flattenRowObject_def fold_rowField)

lemma flattenInnerObject_ok:
  assumes "list_all (\<lambda>(k, v). \<not> rejectedValue v) kvs"
  shows "flattenInnerObject B (Obj kvs) parent
    = FlatOk (own (fold (\<lambda>(k, v) acc. assign k (flatValue B v) acc) kvs emptyObject))"
  using filter_none_rejected [OF assms] by (simp add: flattenInnerObject_def fold_innerField)

lemma flattenInnerObject_err:
  assumes "\<not> list_all (\<lambda>(k, v). \<not> rejectedValue v) kvs"
  shows "flattenInnerObject B (Obj kvs) parent
    = FlatErr (map (\<lambda>(k, v). innerError parent k v) (filter (\<lambda>(k, v). rejectedValue v) kvs))"
  using filter_some_rejected [OF assms] by (simp add: flattenInnerObject_def fold_innerField)

lemma mentions_rowError: "mentions (rowError key v) key"
proof (cases "isArray v")
  case True
  have "err_array key = ''Unsupported array value at '' @ [CHR 0x22] @ key @ [CHR 0x22]
       @ ''. Only arrays of primitive values are supported.''"
    by (simp add: err_array_def)
  then have "mentions (err_array key) key" unfolding mentions_def by blast
  with True show ?thesis by (simp add: rowError_def)
next
  case False
  have "err_nested_row key = ''Nested object at '' @ [CHR 0x22] @ key @ [CHR 0x22]
       @ ('' is not supported in table rows. Flatten it first (e.g. use '' @ [CHR 0x22] @ key
       @ ''.field'' @ [CHR 0x22] @ '' columns) or change your JSON shape.'')"
    by (simp add: err_nested_row_def)
  then have "mentions (err_nested_row key) key" unfolding mentions_def by blast
  with False show ?thesis by (simp add: rowError_def)
qed

lemma mentions_innerError: "mentions (innerError parent key v) (parent @ ''.'' @ key)"
proof (cases "isArray v")
  case True
  have "err_array (parent @ ''.'' @ key)
      = ''Unsupported array value at '' @ [CHR 0x22] @ (parent @ ''.'' @ key) @ [CHR 0x22]
       @ ''. Only arrays of primitive values are supported.''"
    by (simp add: err_array_def)
  then have "mentions (err_array (parent @ ''.'' @ key)) (parent @ ''.'' @ key)"
    unfolding mentions_def by blast
  with True show ?thesis by (simp add: innerError_def)
next
  case False
  have "err_nested_inner (parent @ ''.'' @ key)
      = ''Nested object too deep at '' @ [CHR 0x22] @ (parent @ ''.'' @ key) @ [CHR 0x22]
       @ ''. Inner objects must be flat.''"
    by (simp add: err_nested_inner_def)
  then have "mentions (err_nested_inner (parent @ ''.'' @ key)) (parent @ ''.'' @ key)"
    unfolding mentions_def by blast
  with False show ?thesis by (simp add: innerError_def)
qed

text \<open>The JSON text of an array of primitives, with the built-ins of the examples.\<close>

lemma stringify_example:
  \<open>stringify intBuiltins (Arr [Num (Fin 1), Str ''x'', Null, Bool True]) = ''[1,"x",null,true]''\<close>
proof -
  have "show_nat 1 = ''1''" by code_simp
  then show ?thesis
    by (simp add: intBuiltins_def intToString_def json_quote_def json_escape_def)
qed

text \<open>
  C7. The flatteners copy a field by the assignment \<open>out[key] = value\<close>, and for the key
  \<open>__proto__\<close> that assignment reaches the accessor of \<open>Object.prototype\<close> instead of
  creating a property. So the primitive field \<open>__proto__\<close> of a row or of an inner
  object is not copied: the object with \<open>__proto__\<close> holding 1 and \<open>a\<close> holding 2, which
  \<open>JSON.parse\<close> yields for the text \<^verbatim>\<open>{"__proto__": 1, "a": 2}\<close>, is flattened
  to the object with the single field \<open>a\<close>, and the result is ok.
\<close>

theorem flatteners_drop_proto_field:
  "flattenRowObject B (Obj [(''__proto__'', Num (Fin 1)), (''a'', Num (Fin 2))])
     = FlatOk [(''a'', Num (Fin 2))]
   \<and> flattenInnerObject B (Obj [(''__proto__'', Num (Fin 1)), (''a'', Num (Fin 2))]) parent
     = FlatOk [(''a'', Num (Fin 2))]"
  by (simp add: flattenRowObject_def flattenInnerObject_def rowField_def innerField_def
      isPrimitive_def assign_def emptyObject_def setProp_def isArrayIndex_def is_digit_def)


section \<open>Properties of the CSV reader\<close>

lemma splitLines_nonempty [simp]: "splitLines t \<noteq> []"
  by (induction t rule: splitLines.induct) (auto split: list.splits)

lemma splitOn_nonempty [simp]: "splitOn sep t \<noteq> []"
  by (induction t) (auto split: list.splits)

lemma filter_enumerate_last:
  assumes "ls \<noteq> []"
  shows "map snd (filter (\<lambda>(idx, line). \<not> (idx = length ls - 1 \<and> P line)) (enumerate 0 ls))
    = (if P (last ls) then butlast ls else ls)"
proof -
  from assms obtain xs x where ls: "ls = xs @ [x]" by (metis rev_exhaust)
  have keep: "filter (\<lambda>(idx, line). idx = length xs \<longrightarrow> \<not> P line) (enumerate 0 xs)
      = enumerate 0 xs"
    by (rule filter_True) (auto simp: in_set_enumerate_eq)
  show ?thesis
    by (simp add: ls enumerate_append_eq keep)
qed

lemma csvMatrix_lines:
  "csvMatrix txt = map (\<lambda>line. map trim (splitOn CHR '','' line))
     (if trim (last (splitLines txt)) = '''' then butlast (splitLines txt) else splitLines txt)"
  unfolding csvMatrix_def Let_def
  using filter_enumerate_last [of "splitLines txt" "\<lambda>line. trim line = ''''"]
  by simp

lemma splitLines_last_line:
  "t \<noteq> [] \<Longrightarrow> last t \<noteq> CHR 0x0A \<Longrightarrow>
     last (splitLines t) \<noteq> [] \<and> last (last (splitLines t)) = last t"
proof (induction t rule: splitLines.induct)
  case 1
  then show ?case by simp
next
  case (2 c)
  then show ?case by simp
next
  case (3 c d cs)
  obtain l ls where X: "splitLines (d # cs) = l # ls"
    by (cases "splitLines (d # cs)") simp_all
  show ?case
  proof (cases "c = CHR 0x0A")
    case True
    with 3 X show ?thesis by simp
  next
    case nl: False
    show ?thesis
    proof (cases "c = CHR 0x0D \<and> d = CHR 0x0A")
      case True
      with 3 nl have "cs \<noteq> []" by auto
      with 3 nl True show ?thesis by simp
    next
      case False
      with 3 nl X show ?thesis by (cases ls) auto
    qed
  qed
qed

lemma splitLines_append_LF:
  "splitLines (t @ [CHR 0x0A]) =
     (if t \<noteq> [] \<and> last t = CHR 0x0D
      then butlast (splitLines t) @ [butlast (last (splitLines t)), []]
      else splitLines t @ [[]])"
proof (induction t rule: splitLines.induct)
  case 1
  show ?case by simp
next
  case (2 c)
  show ?case by simp
next
  case (3 c d cs)
  obtain l ls where X: "splitLines (d # cs) = l # ls"
    by (cases "splitLines (d # cs)") simp_all
  have ne: "splitLines cs \<noteq> []" by simp
  show ?case
  proof (cases "c = CHR 0x0A")
    case True
    with 3 X show ?thesis by (simp add: butlast_append)
  next
    case nl: False
    show ?thesis
    proof (cases "c = CHR 0x0D \<and> d = CHR 0x0A")
      case True
      with 3 nl ne show ?thesis by (cases "cs = []") (simp_all add: butlast_append)
    next
      case False
      show ?thesis
      proof (cases "last (d # cs) = CHR 0x0D")
        case cr: True
        then have "last (splitLines (d # cs)) \<noteq> []"
          using splitLines_last_line [of "d # cs"] by simp
        with 3 nl False X cr show ?thesis by (cases ls) (auto simp: butlast_append)
      next
        case nocr: False
        with 3 nl False X show ?thesis by (cases ls) (auto simp: butlast_append)
      qed
    qed
  qed
qed

lemma splitOn_snoc:
  "c \<noteq> sep \<Longrightarrow>
     splitOn sep (l @ [c]) = butlast (splitOn sep l) @ [last (splitOn sep l) @ [c]]"
proof (induction l)
  case Nil
  then show ?case by simp
next
  case (Cons a l)
  obtain x xs where X: "splitOn sep l = x # xs" by (cases "splitOn sep l") simp_all
  from Cons X show ?case by (cases xs) auto
qed

lemma trim_snoc_ws: "is_ws c \<Longrightarrow> trim (x @ [c]) = trim x"
  using trim_padded [of "[]" "[c]" x] by simp

lemma cells_snoc_CR:
  "map trim (splitOn CHR '','' (l @ [CHR 0x0D])) = map trim (splitOn CHR '','' l)"
proof -
  have ws: "is_ws (CHR 0x0D)" by (simp add: is_ws_def)
  have ne: "splitOn CHR '','' l \<noteq> []" by simp
  have "splitOn CHR '','' (l @ [CHR 0x0D])
      = butlast (splitOn CHR '','' l) @ [last (splitOn CHR '','' l) @ [CHR 0x0D]]"
    by (rule splitOn_snoc) simp
  then have "map trim (splitOn CHR '','' (l @ [CHR 0x0D]))
      = map trim (butlast (splitOn CHR '','' l)) @ [trim (last (splitOn CHR '','' l))]"
    by (simp add: trim_snoc_ws [OF ws])
  also have "\<dots> = map trim (butlast (splitOn CHR '','' l) @ [last (splitOn CHR '','' l)])"
    by (simp only: map_append list.map)
  also have "\<dots> = map trim (splitOn CHR '','' l)"
    by (simp only: append_butlast_last_id [OF ne])
  finally show ?thesis .
qed

lemma csvMatrix_trailing_newline:
  assumes nb: "trim (last (splitLines txt)) \<noteq> []"
  shows "csvMatrix (txt @ [CHR 0x0A]) = csvMatrix txt"
proof -
  let ?cells = "\<lambda>line. map trim (splitOn CHR '','' line)"
  let ?L = "splitLines txt"
  have L: "?L = butlast ?L @ [last ?L]" by simp
  from nb have m: "csvMatrix txt = map ?cells ?L" by (simp add: csvMatrix_lines)
  show ?thesis
  proof (cases "txt \<noteq> [] \<and> last txt = CHR 0x0D")
    case True
    then have ll: "last ?L \<noteq> [] \<and> last (last ?L) = CHR 0x0D"
      using splitLines_last_line [of "txt"] by simp
    then have l: "last ?L = butlast (last ?L) @ [CHR 0x0D]"
      by (metis append_butlast_last_id)
    have s: "splitLines (txt @ [CHR 0x0A]) = butlast ?L @ [butlast (last ?L), []]"
      using True by (simp add: splitLines_append_LF)
    have "csvMatrix (txt @ [CHR 0x0A]) = map ?cells (butlast ?L @ [butlast (last ?L)])"
      by (simp add: csvMatrix_lines s butlast_append)
    also have "\<dots> = map ?cells (butlast ?L) @ [?cells (butlast (last ?L) @ [CHR 0x0D])]"
      by (simp add: cells_snoc_CR)
    also have "\<dots> = map ?cells (butlast ?L) @ [?cells (last ?L)]"
      using l by simp
    also have "\<dots> = map ?cells (butlast ?L @ [last ?L])"
      by (simp only: map_append list.map)
    also have "\<dots> = map ?cells ?L"
      by (simp only: append_butlast_last_id [OF splitLines_nonempty])
    finally show ?thesis using m by simp
  next
    case False
    have s: "splitLines (txt @ [CHR 0x0A]) = ?L @ [[]]"
      by (simp only: splitLines_append_LF False if_False)
    have "csvMatrix (txt @ [CHR 0x0A]) = map ?cells ?L"
      by (simp add: csvMatrix_lines s)
    with m show ?thesis by simp
  qed
qed

text \<open>
  C10. Reading a CSV file does more than split at commas: every cell is trimmed, and the
  final line is dropped exactly when it is blank after trimming (no other line is ever
  dropped). So no cell of the grid starts or ends with white space, and a file that ends
  in one trailing newline has the same rows as the file without it.
\<close>

theorem parseCsv_trims_and_drops_blank_last_line:
  "parseCsv txt = Obj [(''dataKind'', Str ''csv''),
                       (''matrix'', Arr (map (\<lambda>row. Arr (map Str row)) (csvMatrix txt))),
                       (''text'', Str txt)]
   \<and> csvMatrix txt = map (\<lambda>line. map trim (splitOn CHR '','' line))
        (if trim (last (splitLines txt)) = [] then butlast (splitLines txt)
         else splitLines txt)
   \<and> (\<forall>row \<in> set (csvMatrix txt). \<forall>cell \<in> set row.
         trim cell = cell
         \<and> (cell \<noteq> [] \<longrightarrow> \<not> is_ws (hd cell) \<and> \<not> is_ws (last cell)))
   \<and> (trim (last (splitLines txt)) \<noteq> [] \<longrightarrow>
         csvMatrix (txt @ [CHR 0x0A]) = csvMatrix txt)"
proof (intro conjI impI ballI)
  show "parseCsv txt = Obj [(''dataKind'', Str ''csv''),
                       (''matrix'', Arr (map (\<lambda>row. Arr (map Str row)) (csvMatrix txt))),
                       (''text'', Str txt)]"
    by (simp add: parseCsv_def)
next
  show "csvMatrix txt = map (\<lambda>line. map trim (splitOn CHR '','' line))
        (if trim (last (splitLines txt)) = [] then butlast (splitLines txt)
         else splitLines txt)"
    by (rule csvMatrix_lines)
next
  fix row cell
  assume r: "row \<in> set (csvMatrix txt)" and c: "cell \<in> set row"
  from r obtain line where "row = map trim (splitOn CHR '','' line)"
    unfolding csvMatrix_lines by auto
  with c obtain x where x: "cell = trim x" by auto
  show "trim cell = cell" by (simp add: x trim_idem)
  assume ne: "cell \<noteq> []"
  then show "\<not> is_ws (hd cell)" using trim_ends(1) [of x] by (simp add: x)
  from ne show "\<not> is_ws (last cell)" using trim_ends(2) [of x] by (simp add: x)
next
  assume "trim (last (splitLines txt)) \<noteq> []"
  then show "csvMatrix (txt @ [CHR 0x0A]) = csvMatrix txt"
    by (rule csvMatrix_trailing_newline)
qed

theorem parseCsv_trims_and_drops_blank_last_line_witness:
  "csvMatrix ('' a , b'' @ [CHR 0x0D, CHR 0x0A] @ ''c,d '' @ [CHR 0x0A])
     = [[''a'', ''b''], [''c'', ''d'']]
   \<and> csvMatrix (('' a , b'' @ [CHR 0x0D, CHR 0x0A] @ ''c,d '') @ [CHR 0x0A])
     = csvMatrix ('' a , b'' @ [CHR 0x0D, CHR 0x0A] @ ''c,d '')"
proof -
  note T = parseCsv_trims_and_drops_blank_last_line
  have l: "splitLines ('' a , b'' @ [CHR 0x0D, CHR 0x0A] @ ''c,d '') = ['' a , b'', ''c,d '']"
    by simp
  have l2: "splitLines ('' a , b'' @ [CHR 0x0D, CHR 0x0A] @ ''c,d '' @ [CHR 0x0A])
      = ['' a , b'', ''c,d '', []]"
    by simp
  have t: "trim ''c,d '' = ''c,d''" "trim '' a '' = ''a''" "trim '' b'' = ''b''"
    "trim ''c'' = ''c''" "trim ''d '' = ''d''"
    by (simp_all add: trim_def is_ws_def)
  have 1: "csvMatrix ('' a , b'' @ [CHR 0x0D, CHR 0x0A] @ ''c,d '' @ [CHR 0x0A])
     = [[''a'', ''b''], [''c'', ''d'']]"
    using T [of "'' a , b'' @ [CHR 0x0D, CHR 0x0A] @ ''c,d '' @ [CHR 0x0A]",
             THEN conjunct2, THEN conjunct1]
    by (simp only: l2) (simp add: t)
  have 2: "csvMatrix (('' a , b'' @ [CHR 0x0D, CHR 0x0A] @ ''c,d '') @ [CHR 0x0A])
     = csvMatrix ('' a , b'' @ [CHR 0x0D, CHR 0x0A] @ ''c,d '')"
    using T [of "'' a , b'' @ [CHR 0x0D, CHR 0x0A] @ ''c,d ''",
             THEN conjunct2, THEN conjunct2, THEN conjunct2]
    by (simp only: l) (simp add: t)
  show ?thesis by (rule conjI [OF 1 2])
qed


section \<open>Properties of the serializer\<close>

subsection \<open>The type-hint map of a pass\<close>

lemma fold_projection:
  assumes "\<And>x s. p (step x s) = fold g (calls x) (p s)"
  shows "p (fold step xs s) = fold g (concat (map calls xs)) (p s)"
  using assms by (induction xs arbitrary: s) simp_all

lemma fold_projection_map:
  assumes "\<And>x s. p (step x s) = g (call x) (p s)"
  shows "p (fold step xs s) = fold g (map call xs) (p s)"
  using assms by (induction xs arbitrary: s) simp_all

lemma arrayField_typeMap:
  "snd (snd (arrayField B row r ch st))
     = recordCast B (cellPath (r - 1) (snd ch), getCellText B (cellAt row (fst ch))) (snd (snd st))"
  by (cases ch; cases st)
     (simp add: arrayField_def recordCast_def Let_def split: prod.splits)

lemma wrappedField_typeMap:
  "snd (snd (wrappedField B row r ch st))
     = recordCast B (cellPath (r - 1) (snd ch), getCellText B (cellAt row (fst ch))) (snd (snd st))"
  by (cases ch; cases st)
     (simp add: wrappedField_def recordCast_def Let_def split: prod.splits)

lemma tableCalls_alt:
  "tableCalls B m headers r
     = map (\<lambda>ch. (cellPath (r - 1) (snd ch), getCellText B (cellAt (rowAt m r) (fst ch))))
         (enumerate 0 headers)"
  by (simp add: tableCalls_def case_prod_unfold)

lemma arrayRow_typeMap:
  "snd (arrayRow B m headers fet r st)
     = fold (recordCast B)
         (if fet \<noteq> None \<and> fet \<noteq> Some TObject then [scalarCall B m r]
          else tableCalls B m headers r) (snd st)"
proof (cases st)
  case (Pair rows tm)
  show ?thesis
  proof (cases "fet \<noteq> None \<and> fet \<noteq> Some TObject")
    case True
    then show ?thesis
      by (simp add: Pair arrayRow_def Let_def recordCast_def scalarCall_def split: prod.splits)
  next
    case False
    have "snd (snd (fold (arrayField B (rowAt m r) r) (enumerate 0 headers) (emptyObject, False, tm)))
        = fold (recordCast B) (tableCalls B m headers r) tm"
      unfolding tableCalls_alt
      using fold_projection_map [of "\<lambda>s. snd (snd s)" "arrayField B (rowAt m r) r" "recordCast B"
          "\<lambda>ch. (cellPath (r - 1) (snd ch), getCellText B (cellAt (rowAt m r) (fst ch)))"
          "enumerate 0 headers" "(emptyObject, False, tm)"]
      by (simp add: arrayField_typeMap)
    with False show ?thesis
      by (auto simp: Pair arrayRow_def Let_def split: prod.splits)
  qed
qed

lemma wrappedRow_typeMap:
  "snd (wrappedRow B m headers r st) = fold (recordCast B) (tableCalls B m headers r) (snd st)"
proof (cases st)
  case (Pair rows tm)
  have "snd (snd (fold (wrappedField B (rowAt m r) r) (enumerate 0 headers) (emptyObject, False, tm)))
      = fold (recordCast B) (tableCalls B m headers r) tm"
    unfolding tableCalls_alt
    using fold_projection_map [of "\<lambda>s. snd (snd s)" "wrappedField B (rowAt m r) r" "recordCast B"
        "\<lambda>ch. (cellPath (r - 1) (snd ch), getCellText B (cellAt (rowAt m r) (fst ch)))"
        "enumerate 0 headers" "(emptyObject, False, tm)"]
    by (simp add: wrappedField_typeMap)
  then show ?thesis
    by (auto simp: Pair wrappedRow_def split: prod.splits)
qed

lemma ooField_typeMap:
  "snd (ooField B headers keyColIndex row key cf st)
     = recordCast B
         (key @ ''.'' @ snd cf,
          getCellText B
            (if keyColIndex = Some 0 then cellAt row (fst cf + 1)
             else case indexOf (Some (snd cf)) headers of
                    Some i \<Rightarrow> cellAt row i
                  | None \<Rightarrow> Undefined)) (snd st)"
  by (cases cf; cases st)
     (simp add: ooField_def recordCast_def Let_def split: prod.splits)

lemma ooRow_typeMap:
  "snd (ooRow B m headers keyColIndex fieldHeaders r st)
     = fold (recordCast B) (ooCalls B m headers keyColIndex fieldHeaders r) (snd st)"
proof (cases st)
  case (Pair result tm)
  let ?key = "ooKey B m keyColIndex r"
  show ?thesis
  proof (cases "?key = []")
    case True
    then show ?thesis
      by (simp add: Pair ooRow_def ooCalls_def ooKey_def Let_def)
  next
    case False
    have "snd (fold (ooField B headers keyColIndex (rowAt m r) ?key) (enumerate 0 fieldHeaders)
                 (emptyObject, tm))
        = fold (recordCast B) (ooCalls B m headers keyColIndex fieldHeaders r) tm"
      using fold_projection_map [of snd "ooField B headers keyColIndex (rowAt m r) ?key"
          "recordCast B"
          "\<lambda>cf. (?key @ ''.'' @ snd cf,
                 getCellText B
                   (if keyColIndex = Some 0 then cellAt (rowAt m r) (fst cf + 1)
                    else case indexOf (Some (snd cf)) headers of
                           Some i \<Rightarrow> cellAt (rowAt m r) i
                         | None \<Rightarrow> Undefined))"
          "enumerate 0 fieldHeaders" "(emptyObject, tm)"] False
      by (simp add: ooField_typeMap ooCalls_def case_prod_unfold)
    with False show ?thesis
      by (auto simp: Pair ooRow_def ooKey_def Let_def split: prod.splits)
  qed
qed

lemma csvCell_typeMap:
  "snd (csvCell B r cs st)
     = fold (recordCast B)
         (case snd cs of None \<Rightarrow> []
          | Some cell \<Rightarrow> [(csvPath r (fst cs), getCellText B cell)]) (snd st)"
  by (cases cs; cases st)
     (simp add: csvCell_def recordCast_def split: prod.splits option.splits)

lemma csvCalls_alt:
  "csvCalls B m r
     = concat (map (\<lambda>cs. case snd cs of None \<Rightarrow> []
                          | Some cell \<Rightarrow> [(csvPath r (fst cs), getCellText B cell)])
                 (enumerate 0 (rowAt m r)))"
proof -
  have "List.map_filter (\<lambda>(c, slot). map_option (\<lambda>cell. (csvPath r c, getCellText B cell)) slot) xs
      = concat (map (\<lambda>cs. case snd cs of None \<Rightarrow> []
                          | Some cell \<Rightarrow> [(csvPath r (fst cs), getCellText B cell)]) xs)"
    for xs :: "(nat \<times> jsval option) list"
    by (induction xs) (auto simp: List.map_filter_simps split: option.splits)
  then show ?thesis by (simp add: csvCalls_def)
qed

lemma csvRow_typeMap:
  "snd (csvRow B m r st) = fold (recordCast B) (csvCalls B m r) (snd st)"
proof (cases st)
  case (Pair csvRows tm)
  have "snd (fold (csvCell B r) (enumerate 0 (rowAt m r)) ([], tm))
      = fold (recordCast B) (csvCalls B m r) tm"
    unfolding csvCalls_alt
    using fold_projection [of snd "csvCell B r" "recordCast B"
        "\<lambda>cs. case snd cs of None \<Rightarrow> []
              | Some cell \<Rightarrow> [(csvPath r (fst cs), getCellText B cell)]"
        "enumerate 0 (rowAt m r)" "([], tm)"]
    by (simp add: csvCell_typeMap)
  then show ?thesis
    by (auto simp: Pair csvRow_def split: prod.splits)
qed

lemma objectRow_typeMap:
  "snd (objectRow B m r st) = fold (recordCast B) (objectCalls B m r) (snd st)"
  by (cases st)
     (simp add: objectRow_def objectCalls_def recordCast_def Let_def split: prod.splits)

lemma nextTypeMap_case:
  "nextTypeMap (case p of (a, t) \<Rightarrow> \<lparr> textOut = f a, nextTypeMap = t, matrixOut = m \<rparr>)
     = snd p"
  by (cases p) simp

lemma sheetToText_typeMap:
  "nextTypeMap (sheetToText B sheets tm kind wr)
     = fold (recordCast B) (castCalls B kind tm (celldataToMatrix (firstSheet sheets))) tm"
proof -
  let ?m = "celldataToMatrix (firstSheet sheets)"
  have a: "snd (fold (arrayRow B ?m hs fet) rs ([], tm))
      = fold (recordCast B)
          (concat (map (\<lambda>r. if fet \<noteq> None \<and> fet \<noteq> Some TObject then [scalarCall B ?m r]
                             else tableCalls B ?m hs r) rs)) tm" for hs fet rs
    using fold_projection [of snd "arrayRow B ?m hs fet" "recordCast B" _ rs "([], tm)"]
    by (simp add: arrayRow_typeMap)
  have w: "snd (fold (wrappedRow B ?m hs) rs ([], tm))
      = fold (recordCast B) (concat (map (tableCalls B ?m hs) rs)) tm" for hs rs
    using fold_projection [of snd "wrappedRow B ?m hs" "recordCast B" _ rs "([], tm)"]
    by (simp add: wrappedRow_typeMap)
  have o: "snd (fold (ooRow B ?m hs k fs) rs (emptyObject, tm))
      = fold (recordCast B) (concat (map (ooCalls B ?m hs k fs) rs)) tm" for hs k fs rs
    using fold_projection [of snd "ooRow B ?m hs k fs" "recordCast B" _ rs "(emptyObject, tm)"]
    by (simp add: ooRow_typeMap)
  have c: "snd (fold (csvRow B ?m) rs ([], tm))
      = fold (recordCast B) (concat (map (csvCalls B ?m) rs)) tm" for rs
    using fold_projection [of snd "csvRow B ?m" "recordCast B" _ rs "([], tm)"]
    by (simp add: csvRow_typeMap)
  have k: "snd (fold (objectRow B ?m) rs (emptyObject, tm))
      = fold (recordCast B) (concat (map (objectCalls B ?m) rs)) tm" for rs
    using fold_projection [of snd "objectRow B ?m" "recordCast B" _ rs "(emptyObject, tm)"]
    by (simp add: objectRow_typeMap)
  have s: "concat (map (\<lambda>r. [f r]) rs) = map f rs" for f :: "nat \<Rightarrow> string \<times> string" and rs
    by (induction rs) simp_all
  show ?thesis
  proof (cases kind)
    case KArray
    let ?fet = "tm ''[0]''"
    let ?rs = "[1 ..< length ?m]"
    obtain rows tm' where f: "fold (arrayRow B ?m (tableHeaders B ?m) ?fet) ?rs ([], tm) = (rows, tm')"
      by (cases "fold (arrayRow B ?m (tableHeaders B ?m) ?fet) ?rs ([], tm)")
    have n: "nextTypeMap (sheetToText B sheets tm KArray wr) = tm'"
      using f by (simp add: sheetToText_def Let_def)
    show ?thesis
    proof (cases "?fet \<noteq> None \<and> ?fet \<noteq> Some TObject")
      case True
      have "tm' = fold (recordCast B) (map (scalarCall B ?m) ?rs) tm"
        using a [of "tableHeaders B ?m" ?fet ?rs] True f by (simp add: s)
      with True show ?thesis unfolding KArray by (simp add: n castCalls_def)
    next
      case False
      have "tm' = fold (recordCast B) (concat (map (tableCalls B ?m (tableHeaders B ?m)) ?rs)) tm"
        using a [of "tableHeaders B ?m" ?fet ?rs] False f by (simp only: snd_conv if_False)
      with False show ?thesis unfolding KArray by (simp only: n castCalls_def dataKind.case if_False)
    qed
  next
    case KWrappedArray
    show ?thesis
      using w [of "tableHeaders B ?m" "[1 ..< length ?m]"]
      by (simp add: KWrappedArray sheetToText_def castCalls_def Let_def nextTypeMap_case)
  next
    case KObjectOfObjects
    show ?thesis
      using o [of "ooHeaders B ?m" "indexOf (Some ''key'') (ooHeaders B ?m)"
                 "ooFieldHeaders (ooHeaders B ?m) (indexOf (Some ''key'') (ooHeaders B ?m))"
                 "[1 ..< length ?m]"]
      by (simp add: KObjectOfObjects sheetToText_def castCalls_def Let_def nextTypeMap_case)
  next
    case KCsv
    show ?thesis
      using c [of "[0 ..< length ?m]"]
      by (simp add: KCsv sheetToText_def castCalls_def Let_def nextTypeMap_case)
  next
    case KXlsx
    show ?thesis
      by (simp add: KXlsx sheetToText_def castCalls_def Let_def)
  next
    case KObject
    show ?thesis
      using k [of "[0 ..< length ?m]"]
      by (simp add: KObject sheetToText_def castCalls_def Let_def nextTypeMap_case)
  next
    case KUnsupported
    show ?thesis
      using k [of "[0 ..< length ?m]"]
      by (simp add: KUnsupported sheetToText_def castCalls_def Let_def nextTypeMap_case)
  qed
qed

lemma recordCast_apply:
  "recordCast B (path, raw) tm
     = (if path = ''__proto__'' \<and> tm path = None then tm
        else tm(path \<mapsto> (case readHint tm path of
                             Some h \<Rightarrow> h
                           | None \<Rightarrow> snd (castWithType B raw None))))"
proof (cases "path = ''__proto__'' \<and> tm path = None")
  case True
  then have a: "path = ''__proto__''" by (rule conjunct1)
  from True have "tm path = None" by (rule conjunct2)
  then have b: "tm ''__proto__'' = None" unfolding a .
  show ?thesis unfolding a using b by (simp add: recordCast_def castAt_def split: prod.splits)
next
  case False
  obtain casted t where c: "castWithType B raw (readHint tm path) = (casted, t)"
    by (cases "castWithType B raw (readHint tm path)")
  have e: "castAt B tm path raw
      = (casted, tm(path \<mapsto> (case readHint tm path of Some h \<Rightarrow> h | None \<Rightarrow> t)))"
    unfolding castAt_def c by (simp only: prod.case if_not_P [OF False])
  have x: "(case readHint tm path of Some h \<Rightarrow> h | None \<Rightarrow> t)
      = (case readHint tm path of Some h \<Rightarrow> h | None \<Rightarrow> snd (castWithType B raw None))"
  proof (cases "readHint tm path")
    case None
    from c have "snd (castWithType B raw None) = t" unfolding None by simp
    then show ?thesis unfolding None by simp
  next
    case (Some h)
    show ?thesis unfolding Some by simp
  qed
  show ?thesis
    unfolding recordCast_def prod.case e snd_conv x by (simp only: if_not_P [OF False])
qed

lemma readHint_own: "tm p = Some h \<Longrightarrow> readHint tm p = Some h"
  by (simp add: readHint_def)


lemma readHint_inherited:
  "tm p = None \<Longrightarrow> p \<in> set protoNames \<Longrightarrow> readHint tm p = Some TInherited"
  by (simp add: readHint_def)

lemma recordCast_keeps: "tm p = Some h \<Longrightarrow> recordCast B call tm p = Some h"
  by (cases call) (auto simp: recordCast_apply readHint_own)

lemma recordCast_other: "p \<noteq> fst call \<Longrightarrow> recordCast B call tm p = tm p"
  by (cases call) (auto simp: recordCast_apply)

lemma recordCast_proto: "tm ''__proto__'' = None \<Longrightarrow> recordCast B call tm ''__proto__'' = None"
  by (cases call) (auto simp: recordCast_apply)

lemma fold_recordCast_keeps:
  "tm p = Some h \<Longrightarrow> fold (recordCast B) calls tm p = Some h"
  by (induction calls arbitrary: tm) (simp_all add: recordCast_keeps)

lemma fold_recordCast_other:
  "p \<notin> fst ` set calls \<Longrightarrow> fold (recordCast B) calls tm p = tm p"
  by (induction calls arbitrary: tm) (simp_all add: recordCast_other)

lemma fold_recordCast_proto:
  "tm ''__proto__'' = None \<Longrightarrow> fold (recordCast B) calls tm ''__proto__'' = None"
  by (induction calls arbitrary: tm) (simp_all add: recordCast_proto)


lemma fold_recordCast_first_inherited:
  assumes "p \<notin> fst ` set before" and "tm p = None" and "p \<in> set protoNames"
    and "p \<noteq> ''__proto__''"
  shows "fold (recordCast B) (before @ (p, raw) # after) tm p = Some TInherited"
proof -
  let ?tm = "fold (recordCast B) before tm"
  from assms(1,2) have "?tm p = None" by (simp add: fold_recordCast_other)
  from this assms(3) have "readHint ?tm p = Some TInherited" by (rule readHint_inherited)
  with assms(4) have "recordCast B (p, raw) ?tm p = Some TInherited"
    by (simp add: recordCast_apply)
  then have "fold (recordCast B) after (recordCast B (p, raw) ?tm) p = Some TInherited"
    by (rule fold_recordCast_keeps)
  then show ?thesis by simp
qed

text \<open>
  C8. The type-hint map only grows across a serialization: for every call of
  \<open>sheetToText\<close>, every path of the input map is in the returned map with the same hint,
  so the returned map differs from the input at most by added paths.
\<close>

theorem sheetToText_typeMap_append_only:
  "currentTypeMap \<subseteq>\<^sub>m nextTypeMap (sheetToText B sheets currentTypeMap kind wr)
   \<and> (\<forall>path hint. currentTypeMap path = Some hint \<longrightarrow>
         nextTypeMap (sheetToText B sheets currentTypeMap kind wr) path = Some hint)"
proof -
  have "nextTypeMap (sheetToText B sheets currentTypeMap kind wr) path = Some hint"
    if "currentTypeMap path = Some hint" for path hint
    using that by (simp add: sheetToText_typeMap fold_recordCast_keeps)
  then show ?thesis by (auto simp: map_le_def)
qed

theorem sheetToText_typeMap_append_only_witness:
  "nextTypeMap (sheetToText intBuiltins [gridSheet [[''a'', ''x''], [''k'', ''7'']]]
                  [''a'' \<mapsto> TNumber, ''gone'' \<mapsto> TBoolean] KObject None) ''a'' = Some TNumber
   \<and> nextTypeMap (sheetToText intBuiltins [gridSheet [[''a'', ''x''], [''k'', ''7'']]]
                  [''a'' \<mapsto> TNumber, ''gone'' \<mapsto> TBoolean] KObject None) ''gone'' = Some TBoolean"
proof -
  note T = sheetToText_typeMap_append_only
    [of "[''a'' \<mapsto> TNumber, ''gone'' \<mapsto> TBoolean]" intBuiltins
        "[gridSheet [[''a'', ''x''], [''k'', ''7'']]]" KObject None, THEN conjunct2]
  have 1: "nextTypeMap (sheetToText intBuiltins [gridSheet [[''a'', ''x''], [''k'', ''7'']]]
                  [''a'' \<mapsto> TNumber, ''gone'' \<mapsto> TBoolean] KObject None) ''a'' = Some TNumber"
    by (rule T [THEN spec, THEN spec, THEN mp]) simp
  have 2: "nextTypeMap (sheetToText intBuiltins [gridSheet [[''a'', ''x''], [''k'', ''7'']]]
                  [''a'' \<mapsto> TNumber, ''gone'' \<mapsto> TBoolean] KObject None) ''gone'' = Some TBoolean"
    by (rule T [THEN spec, THEN spec, THEN mp]) simp
  show ?thesis by (rule conjI [OF 1 2])
qed






text \<open>
  Where the input map has no property at a name that it inherits from
  \<open>Object.prototype\<close>, a cast reads the inherited value as the hint: the text is kept as
  a string, and the first cast at that name binds it to the inherited value. The name
  \<open>__proto__\<close> is never bound.
\<close>

lemma sheetToText_inherited_names:
  "(tm path = None \<and> path \<in> set protoNames \<and> path \<noteq> ''__proto__''
        \<and> castCalls B kind tm (celldataToMatrix (firstSheet sheets))
            = before @ (path, raw) # after
        \<and> path \<notin> fst ` set before \<longrightarrow>
        nextTypeMap (sheetToText B sheets tm kind wr) path = Some TInherited)
   \<and> castWithType B later (Some TInherited)
        = (if trim later = dq_marker \<or> trim later = sq_marker then Str [] else Str (trim later),
           TString)
   \<and> (tm ''__proto__'' = None \<longrightarrow>
        nextTypeMap (sheetToText B sheets tm kind wr) ''__proto__'' = None)"
proof (intro conjI impI)
  assume a: "tm path = None \<and> path \<in> set protoNames \<and> path \<noteq> ''__proto__''
        \<and> castCalls B kind tm (celldataToMatrix (firstSheet sheets))
            = before @ (path, raw) # after
        \<and> path \<notin> fst ` set before"
  then have "fold (recordCast B) (before @ (path, raw) # after) tm path = Some TInherited"
    by (intro fold_recordCast_first_inherited) simp_all
  then show "nextTypeMap (sheetToText B sheets tm kind wr) path = Some TInherited"
    using a by (simp add: sheetToText_typeMap)
next
  show "castWithType B later (Some TInherited)
        = (if trim later = dq_marker \<or> trim later = sq_marker then Str [] else Str (trim later),
           TString)"
    by (simp add: castWithType_def Let_def)
next
  assume "tm ''__proto__'' = None"
  then show "nextTypeMap (sheetToText B sheets tm kind wr) ''__proto__'' = None"
    by (simp add: sheetToText_typeMap fold_recordCast_proto)
qed


section \<open>Properties of the grid builder\<close>

subsection \<open>Paths of a CSV matrix\<close>










subsection \<open>The type-hint map of a CSV matrix\<close>








subsection \<open>The type-hint map of a loaded document\<close>








end
